theory Spec2Isabelle
  imports Main
begin

section \<open>Errors, results and observable events\<close>

text \<open>
  Go's \<^verbatim>\<open>error\<close> values. \<open>ErrorNew m\<close> is what \<^verbatim>\<open>errors.New(m)\<close> and
  \<^verbatim>\<open>fmt.Errorf(m)\<close> build (and what a collaborator reports), \<open>Wrap e m\<close> is
  \<^verbatim>\<open>errors.Wrap(e, m)\<close>. A nil error is \<open>None\<close> of \<open>error option\<close>. A Go result
  pair \<^verbatim>\<open>(T, error)\<close> is a HOL pair \<open>T \<times> error option\<close>: both components exist
  on every return, as in Go.
\<close>

datatype error = ErrorNew string | Wrap error string

fun Error_msg :: "error \<Rightarrow> string" where
  "Error_msg (ErrorNew m) = m"
| "Error_msg (Wrap e m) = m @ '': '' @ Error_msg e"

text \<open>
  A function either returns or panics; the one panic of \<^verbatim>\<open>chart.go\<close> is the run-time
  error "index out of range [i] with length n".
\<close>

datatype panic = IndexOutOfRange nat nat

datatype 'a outcome = Return 'a | Panic panic

text \<open>A slice index \<^verbatim>\<open>xs[i]\<close>: Go panics when \<open>i\<close> is not below the length.\<close>

definition index :: "'a list \<Rightarrow> nat \<Rightarrow> 'a outcome" where
  "index xs i = (if i < length xs then Return (xs ! i) else Panic (IndexOutOfRange i (length xs)))"

text \<open>
  Everything the engine does to the outside: one event per call of a collaborator
  method (with the arguments of the call) and one per text written to standard output.
\<close>

datatype event =
    Stdout string
  | GitFileExistsOnBranch string string string
  | GitShow string string string
  | GitAddWorkingTree string string
  | GitRemoveWorkingTree string
  | GitMergeBase string string
  | GitListChangedFilesInDirs string "string list"
  | GitGetUrlForRemote string
  | GitValidateRepository
  | HelmInit
  | HelmAddRepo string string "string list"
  | HelmBuildDependencies string
  | HelmLintWithValues string string
  | HelmInstallWithValues string string string string
  | HelmUpgrade string string
  | HelmTest string bool
  | HelmDeleteRelease string
  | KubectlDeleteNamespace string
  | KubectlWaitForDeployments string string
  | KubectlGetPods "string list"
  | KubectlDescribePod string string
  | KubectlLogs string string string
  | KubectlGetInitContainers string string
  | KubectlGetContainers string string
  | LinterYamlLint string string
  | LinterYamale string string
  | DirectoryListerListChildDirs string
  | ChartUtilsLookupChartDir "string list" string
  | ChartUtilsReadChartYaml string
  | AccountValidatorValidate string string

section \<open>Data model\<close>

record Maintainer =
  Name :: string
  Email :: string

record ChartYaml =
  Version :: string
  Deprecated :: bool
  Maintainers :: "Maintainer list"

text \<open>
  The fields of \<^verbatim>\<open>config.Configuration\<close> that \<^verbatim>\<open>chart.go\<close> reads. Three of them
  share their name with a method and carry the suffix \<open>_cfg\<close>.
\<close>

record Configuration =
  Remote :: string
  TargetBranch :: string
  BuildId :: string
  LintConf :: string
  ChartYamlSchema :: string
  ValidateMaintainers_cfg :: bool
  ValidateChartSchema :: bool
  ValidateYaml :: bool
  CheckVersionIncrement_cfg :: bool
  ProcessAllCharts :: bool
  Charts :: "string list"
  ChartRepos :: "string list"
  ChartDirs :: "string list"
  ExcludedCharts :: "string list"
  HelmRepoExtraArgs :: "string list"
  Upgrade_cfg :: bool
  Namespace :: string
  ReleaseLabel :: string

record TestResult =
  Chart :: string
  Error :: "error option"

section \<open>Collaborators\<close>

text \<open>
  The interfaces of \<^verbatim>\<open>chart.go\<close>. A method is a function of the outside world \<open>'w\<close>
  (the repository, the cluster, the file system) that returns its Go result and the
  world it leaves; nothing is assumed about what a method does.
\<close>

record 'w Git =
  FileExistsOnBranch :: "string \<Rightarrow> string \<Rightarrow> string \<Rightarrow> 'w \<Rightarrow> bool \<times> 'w"
  Show :: "string \<Rightarrow> string \<Rightarrow> string \<Rightarrow> 'w \<Rightarrow> (string \<times> error option) \<times> 'w"
  AddWorkingTree :: "string \<Rightarrow> string \<Rightarrow> 'w \<Rightarrow> error option \<times> 'w"
  RemoveWorkingTree :: "string \<Rightarrow> 'w \<Rightarrow> error option \<times> 'w"
  MergeBase :: "string \<Rightarrow> string \<Rightarrow> 'w \<Rightarrow> (string \<times> error option) \<times> 'w"
  ListChangedFilesInDirs :: "string \<Rightarrow> string list \<Rightarrow> 'w \<Rightarrow> (string list \<times> error option) \<times> 'w"
  GetUrlForRemote :: "string \<Rightarrow> 'w \<Rightarrow> (string \<times> error option) \<times> 'w"
  ValidateRepository :: "'w \<Rightarrow> error option \<times> 'w"

record 'w Helm =
  Init :: "'w \<Rightarrow> error option \<times> 'w"
  AddRepo :: "string \<Rightarrow> string \<Rightarrow> string list \<Rightarrow> 'w \<Rightarrow> error option \<times> 'w"
  BuildDependencies :: "string \<Rightarrow> 'w \<Rightarrow> error option \<times> 'w"
  LintWithValues :: "string \<Rightarrow> string \<Rightarrow> 'w \<Rightarrow> error option \<times> 'w"
  InstallWithValues :: "string \<Rightarrow> string \<Rightarrow> string \<Rightarrow> string \<Rightarrow> 'w \<Rightarrow> error option \<times> 'w"
  Upgrade :: "string \<Rightarrow> string \<Rightarrow> 'w \<Rightarrow> error option \<times> 'w"
  Test :: "string \<Rightarrow> bool \<Rightarrow> 'w \<Rightarrow> error option \<times> 'w"
  DeleteRelease :: "string \<Rightarrow> 'w \<Rightarrow> unit \<times> 'w"

record 'w Kubectl =
  DeleteNamespace :: "string \<Rightarrow> 'w \<Rightarrow> unit \<times> 'w"
  WaitForDeployments :: "string \<Rightarrow> string \<Rightarrow> 'w \<Rightarrow> error option \<times> 'w"
  GetPods :: "string list \<Rightarrow> 'w \<Rightarrow> (string list \<times> error option) \<times> 'w"
  DescribePod :: "string \<Rightarrow> string \<Rightarrow> 'w \<Rightarrow> error option \<times> 'w"
  Logs :: "string \<Rightarrow> string \<Rightarrow> string \<Rightarrow> 'w \<Rightarrow> error option \<times> 'w"
  GetInitContainers :: "string \<Rightarrow> string \<Rightarrow> 'w \<Rightarrow> (string list \<times> error option) \<times> 'w"
  GetContainers :: "string \<Rightarrow> string \<Rightarrow> 'w \<Rightarrow> (string list \<times> error option) \<times> 'w"

record 'w Linter =
  YamlLint :: "string \<Rightarrow> string \<Rightarrow> 'w \<Rightarrow> error option \<times> 'w"
  Yamale :: "string \<Rightarrow> string \<Rightarrow> 'w \<Rightarrow> error option \<times> 'w"

text \<open>
  \<^verbatim>\<open>ListChildDirs\<close> receives the test function and is free to call it; the test of
  \<^verbatim>\<open>ReadAllChartDirectories\<close> consults \<^verbatim>\<open>LookupChartDir\<close>, so it is a function of
  the world too.
\<close>

record 'w DirectoryLister =
  ListChildDirs :: "string \<Rightarrow> (string \<Rightarrow> 'w \<Rightarrow> bool \<times> 'w) \<Rightarrow> 'w \<Rightarrow> (string list \<times> error option) \<times> 'w"

text \<open>
  \<^verbatim>\<open>ReadChartYaml\<close> returns a pointer in Go; the methods dereference it only after
  \<^verbatim>\<open>err == nil\<close>, and the model takes the collaborator to return a manifest then.
\<close>

record 'w ChartUtils =
  LookupChartDir :: "string list \<Rightarrow> string \<Rightarrow> 'w \<Rightarrow> (string \<times> error option) \<times> 'w"
  ReadChartYaml :: "string \<Rightarrow> 'w \<Rightarrow> (ChartYaml \<times> error option) \<times> 'w"

record 'w AccountValidator =
  Validate :: "string \<Rightarrow> string \<Rightarrow> 'w \<Rightarrow> error option \<times> 'w"

text \<open>
  The package-level functions of \<^verbatim>\<open>pkg/util\<close> that \<^verbatim>\<open>chart.go\<close> calls and whose
  code is not part of the source under study. They are pure functions of their
  arguments and are taken as parameters: \<open>util_ReadChartYaml\<close> is
  \<^verbatim>\<open>util.ReadChartYaml\<close> (on the bytes of a manifest), \<open>DelimiterLine\<close> is the text
  that \<^verbatim>\<open>util.PrintDelimiterLine\<close> writes.
\<close>

record Util =
  CompareVersions :: "string \<Rightarrow> string \<Rightarrow> int \<times> error option"
  BreakingChangeAllowed :: "string \<Rightarrow> string \<Rightarrow> bool \<times> error option"
  util_ReadChartYaml :: "string \<Rightarrow> ChartYaml \<times> error option"
  CreateInstallParams :: "string \<Rightarrow> string \<Rightarrow> string \<times> string"
  DelimiterLine :: "string \<Rightarrow> string"

text \<open>
  The functions of Go's \<^verbatim>\<open>path\<close> and \<^verbatim>\<open>path/filepath\<close> packages that the methods
  call. Those of \<^verbatim>\<open>filepath\<close> depend on the operating system, and \<^verbatim>\<open>Glob\<close> reads the
  file system; the error of \<^verbatim>\<open>Glob\<close> is dropped by its only caller.
\<close>

record 'w Stdlib =
  path_Join :: "string list \<Rightarrow> string"
  path_Base :: "string \<Rightarrow> string"
  filepath_Dir :: "string \<Rightarrow> string"
  filepath_ToSlash :: "string \<Rightarrow> string"
  filepath_Glob :: "string \<Rightarrow> 'w \<Rightarrow> string list"

text \<open>
  The \<^verbatim>\<open>Testing\<close> struct, with the two tables of package-level functions carried
  along as further fields.
\<close>

record 'w Testing =
  config :: Configuration
  helm :: "'w Helm"
  kubectl :: "'w Kubectl"
  git :: "'w Git"
  linter :: "'w Linter"
  accountValidator :: "'w AccountValidator"
  directoryLister :: "'w DirectoryLister"
  chartUtils :: "'w ChartUtils"
  util :: Util
  stdlib :: "'w Stdlib"

section \<open>State of a run\<close>

text \<open>The outside world and the events so far, oldest first.\<close>

record 'w st =
  world :: 'w
  trace :: "event list"

definition call :: "event \<Rightarrow> ('w \<Rightarrow> 'r \<times> 'w) \<Rightarrow> 'w st \<Rightarrow> 'r \<times> 'w st" where
  "call ev f s = (case f (world s) of (r, w) \<Rightarrow> (r, \<lparr>world = w, trace = trace s @ [ev]\<rparr>))"

definition print :: "string \<Rightarrow> 'w st \<Rightarrow> 'w st" where
  "print txt s = s\<lparr>trace := trace s @ [Stdout txt]\<rparr>"

text \<open>
  \<^verbatim>\<open>fmt.Println\<close> of one string, \<^verbatim>\<open>util.PrintDelimiterLine\<close>, and a \<^verbatim>\<open>'%s'\<close> of
  a format string.
\<close>

definition quoted :: "string \<Rightarrow> string" where
  "quoted x = [CHR 0x27] @ x @ [CHR 0x27]"

definition println :: "string \<Rightarrow> 'w st \<Rightarrow> 'w st" where
  "println txt s = print (txt @ ''\<newline>'') s"

definition PrintDelimiterLine :: "'w Testing \<Rightarrow> string \<Rightarrow> 'w st \<Rightarrow> 'w st" where
  "PrintDelimiterLine t c s = print (DelimiterLine (util t) c) s"

section \<open>Helpers from the standard library and \<^verbatim>\<open>pkg/util\<close>\<close>

text \<open>
  \<^verbatim>\<open>strings.SplitN(s, sep, n)\<close> for a separator of one character: at most \<open>n\<close>
  pieces, the last one the unsplit rest; no piece at all for \<open>n = 0\<close>.
\<close>

fun SplitN :: "string \<Rightarrow> char \<Rightarrow> nat \<Rightarrow> string list" where
  "SplitN s sep 0 = []"
| "SplitN s sep (Suc 0) = [s]"
| "SplitN s sep (Suc (Suc n)) =
     (if sep \<in> set s
      then takeWhile (\<lambda>c. c \<noteq> sep) s # SplitN (tl (dropWhile (\<lambda>c. c \<noteq> sep) s)) sep (Suc n)
      else [s])"

text \<open>
  \<^verbatim>\<open>strings.Fields\<close>: the maximal runs of characters that are not white space. The
  white space of the model is that of ASCII.
\<close>

definition isSpace :: "char \<Rightarrow> bool" where
  "isSpace c = (c \<in> set [CHR '' '', CHR 0x09, CHR 0x0A, CHR 0x0B, CHR 0x0C, CHR 0x0D])"

function Fields :: "string \<Rightarrow> string list" where
  "Fields s =
     (case dropWhile isSpace s of
        [] \<Rightarrow> []
      | c # cs \<Rightarrow> takeWhile (\<lambda>x. \<not> isSpace x) (c # cs) # Fields (dropWhile (\<lambda>x. \<not> isSpace x) (c # cs)))"
  by pat_completeness auto
termination
proof (relation "measure length")
  show "wf (measure length)" by simp
next
  fix s :: string and c cs
  assume d: "dropWhile isSpace s = c # cs"
  have nsp: "\<not> isSpace c" using d by (metis hd_dropWhile list.sel(1) list.distinct(1))
  have "length (dropWhile (\<lambda>x. \<not> isSpace x) (c # cs)) \<le> length cs"
    using nsp by (simp add: length_dropWhile_le)
  also have "length cs < length (dropWhile isSpace s)" using d by simp
  also have "\<dots> \<le> length s" by (rule length_dropWhile_le)
  finally show "(dropWhile (\<lambda>x. \<not> isSpace x) (c # cs), s) \<in> measure length" by simp
qed

text \<open>
  Modelled from the spec: \<^verbatim>\<open>util.StringSliceContains\<close> (in \<^verbatim>\<open>pkg/util\<close>, not part of
  the source under study) tells whether a name is in a list of names: "skip it if that
  name is excluded", "only add it if not already in the list".
\<close>

definition StringSliceContains :: "string list \<Rightarrow> string \<Rightarrow> bool" where
  "StringSliceContains xs x = (x \<in> set xs)"

section \<open>The previous revision\<close>

definition ctPreviousRevisionTree :: string where
  "ctPreviousRevisionTree = ''ct_previous_revision''"

definition computePreviousRevisionPath :: "'w Testing \<Rightarrow> string \<Rightarrow> string" where
  "computePreviousRevisionPath t dir = path_Join (stdlib t) [ctPreviousRevisionTree, dir]"

definition FindValuesFilesForCI :: "'w Testing \<Rightarrow> string \<Rightarrow> 'w st \<Rightarrow> string list" where
  "FindValuesFilesForCI t chart s =
     (let ciDir = path_Join (stdlib t) [chart, ''ci/*-values.yaml'']
      in filepath_Glob (stdlib t) ciDir (world s))"

definition computeMergeBase :: "'w Testing \<Rightarrow> 'w st \<Rightarrow> (string \<times> error option) \<times> 'w st" where
  "computeMergeBase t s =
     (case call GitValidateRepository (ValidateRepository (git t)) s of
        (Some err, s1) \<Rightarrow> (('''', Some (ErrorNew ''Must be in a git repository'')), s1)
      | (None, s1) \<Rightarrow>
          (let commit1 = Remote (config t) @ ''/'' @ TargetBranch (config t)
           in call (GitMergeBase commit1 ''HEAD'') (MergeBase (git t) commit1 ''HEAD'') s1))"

section \<open>Version gate\<close>

definition GetOldChartVersion :: "'w Testing \<Rightarrow> string \<Rightarrow> 'w st \<Rightarrow> (string \<times> error option) \<times> 'w st" where
  "GetOldChartVersion t chart s =
     (let cfg = config t;
          chartYamlFile = path_Join (stdlib t) [chart, ''Chart.yaml'']
      in case call (GitFileExistsOnBranch chartYamlFile (Remote cfg) (TargetBranch cfg))
                (FileExistsOnBranch (git t) chartYamlFile (Remote cfg) (TargetBranch cfg)) s of
           (False, s1) \<Rightarrow>
             (('''', None),
              print (''Unable to find chart on '' @ TargetBranch cfg @ ''. New chart detected.\<newline>'') s1)
         | (True, s1) \<Rightarrow>
             (case call (GitShow chartYamlFile (Remote cfg) (TargetBranch cfg))
                     (Show (git t) chartYamlFile (Remote cfg) (TargetBranch cfg)) s1 of
                ((chartYamlContents, Some err), s2) \<Rightarrow>
                  (('''', Some (Wrap err ''Error reading old Chart.yaml'')), s2)
              | ((chartYamlContents, None), s2) \<Rightarrow>
                  (case util_ReadChartYaml (util t) chartYamlContents of
                     (chartYaml, Some err) \<Rightarrow>
                       (('''', Some (Wrap err ''Error reading old chart version'')), s2)
                   | (chartYaml, None) \<Rightarrow> ((Version chartYaml, None), s2))))"

definition GetNewChartVersion :: "'w Testing \<Rightarrow> string \<Rightarrow> 'w st \<Rightarrow> (string \<times> error option) \<times> 'w st" where
  "GetNewChartVersion t chart s =
     (case call (ChartUtilsReadChartYaml chart) (ReadChartYaml (chartUtils t) chart) s of
        ((chartYaml, Some err), s1) \<Rightarrow>
          (('''', Some (Wrap err ''Error reading new chart version'')), s1)
      | ((chartYaml, None), s1) \<Rightarrow> ((Version chartYaml, None), s1))"

definition CheckVersionIncrement :: "'w Testing \<Rightarrow> string \<Rightarrow> 'w st \<Rightarrow> error option \<times> 'w st" where
  "CheckVersionIncrement t chart s =
     (case GetOldChartVersion t chart
             (print (''Checking chart '' @ quoted chart @ '' for a version bump...\<newline>'') s) of
        ((oldVersion, Some err), s1) \<Rightarrow> (Some err, s1)
      | ((oldVersion, None), s1) \<Rightarrow>
          if oldVersion = '''' then (None, s1)
          else
            (case GetNewChartVersion t chart (println (''Old chart version: '' @ oldVersion) s1) of
               ((newVersion, Some err), s2) \<Rightarrow> (Some err, s2)
             | ((newVersion, None), s2) \<Rightarrow>
                 (let s3 = println (''New chart version: '' @ newVersion) s2
                  in case CompareVersions (util t) oldVersion newVersion of
                       (result, Some err) \<Rightarrow> (Some err, s3)
                     | (result, None) \<Rightarrow>
                         if result \<ge> 0
                         then (Some (ErrorNew ''Chart version not ok. Needs a version bump!''), s3)
                         else (None, println ''Chart version ok.'' s3))))"

definition checkBreakingChangeAllowed :: "'w Testing \<Rightarrow> string \<Rightarrow> 'w st \<Rightarrow> (bool \<times> error option) \<times> 'w st" where
  "checkBreakingChangeAllowed t chart s =
     (case GetOldChartVersion t chart s of
        ((oldVersion, Some err), s1) \<Rightarrow> ((False, Some err), s1)
      | ((oldVersion, None), s1) \<Rightarrow>
          if oldVersion = '''' then ((True, Some (ErrorNew ''chart has no previous revision'')), s1)
          else
            (case GetNewChartVersion t chart s1 of
               ((newVersion, Some err), s2) \<Rightarrow> ((False, Some err), s2)
             | ((newVersion, None), s2) \<Rightarrow> (BreakingChangeAllowed (util t) oldVersion newVersion, s2)))"

section \<open>Maintainer validation\<close>

fun validate_maintainers_loop :: "'w Testing \<Rightarrow> string \<Rightarrow> Maintainer list \<Rightarrow> 'w st \<Rightarrow> error option \<times> 'w st" where
  "validate_maintainers_loop t repoUrl [] s = (None, s)"
| "validate_maintainers_loop t repoUrl (maintainer # ms) s =
     (case call (AccountValidatorValidate repoUrl (Name maintainer))
             (Validate (accountValidator t) repoUrl (Name maintainer)) s of
        (Some err, s1) \<Rightarrow> (Some err, s1)
      | (None, s1) \<Rightarrow> validate_maintainers_loop t repoUrl ms s1)"

definition ValidateMaintainers :: "'w Testing \<Rightarrow> string \<Rightarrow> 'w st \<Rightarrow> error option \<times> 'w st" where
  "ValidateMaintainers t chart s =
     (case call (ChartUtilsReadChartYaml chart) (ReadChartYaml (chartUtils t) chart)
             (println ''Validating maintainers...'' s) of
        ((chartYaml, Some err), s1) \<Rightarrow> (Some err, s1)
      | ((chartYaml, None), s1) \<Rightarrow>
          if Deprecated chartYaml then
            (if length (Maintainers chartYaml) > 0
             then (Some (ErrorNew ''Deprecated chart must not have maintainers''), s1)
             else (None, s1))
          else if length (Maintainers chartYaml) = 0
          then (Some (ErrorNew ''Chart doesn't have maintainers''), s1)
          else
            (case call (GitGetUrlForRemote (Remote (config t)))
                    (GetUrlForRemote (git t) (Remote (config t))) s1 of
               ((repoUrl, Some err), s2) \<Rightarrow> (Some err, s2)
             | ((repoUrl, None), s2) \<Rightarrow>
                 validate_maintainers_loop t repoUrl (Maintainers chartYaml) s2))"

section \<open>Install and upgrade pipelines\<close>

definition testRelease :: "'w Testing \<Rightarrow> string \<Rightarrow> string \<Rightarrow> string \<Rightarrow> bool \<Rightarrow> 'w st \<Rightarrow> error option \<times> 'w st" where
  "testRelease t release namespace releaseSelector cleanupHelmTests s =
     (case call (KubectlWaitForDeployments namespace releaseSelector)
             (WaitForDeployments (kubectl t) namespace releaseSelector) s of
        (Some err, s1) \<Rightarrow> (Some err, s1)
      | (None, s1) \<Rightarrow>
          (case call (HelmTest release cleanupHelmTests) (Test (helm t) release cleanupHelmTests) s1 of
             (Some err, s2) \<Rightarrow> (Some err, s2)
           | (None, s2) \<Rightarrow> (None, s2)))"

text \<open>\<^verbatim>\<open>strings.Trim(item, "'")\<close>.\<close>

definition Trim_quote :: "string \<Rightarrow> string" where
  "Trim_quote item =
     rev (dropWhile (\<lambda>c. c = CHR 0x27) (rev (dropWhile (\<lambda>c. c = CHR 0x27) item)))"

fun printDetails :: "'w Testing \<Rightarrow> string \<Rightarrow> string \<Rightarrow> string \<Rightarrow>
    (string \<Rightarrow> 'w st \<Rightarrow> error option \<times> 'w st) \<Rightarrow> string list \<Rightarrow> 'w st \<Rightarrow> 'w st" where
  "printDetails t pod txt delimiterChar printFunc [] s = s"
| "printDetails t pod txt delimiterChar printFunc (item # items) s =
     (let s1 = PrintDelimiterLine t delimiterChar s;
          s2 = print (''==> '' @ txt @ '' '' @ pod @ ''\<newline>'') s1;
          s3 = PrintDelimiterLine t delimiterChar s2
      in case printFunc (Trim_quote item) s3 of
           (Some err, s4) \<Rightarrow> println (''Error printing details: '' @ Error_msg err) s4
         | (None, s4) \<Rightarrow>
             (let s5 = PrintDelimiterLine t delimiterChar s4;
                  s6 = print (''<== '' @ txt @ '' '' @ pod @ ''\<newline>'') s5;
                  s7 = PrintDelimiterLine t delimiterChar s6
              in printDetails t pod txt delimiterChar printFunc items s7))"

text \<open>
  The loop over the pods of \<^verbatim>\<open>PrintPodDetailsAndLogs\<close>. The flag tells whether the
  loop ran to its end (\<open>True\<close>) or the method returned from inside it.
\<close>

fun pods_loop :: "'w Testing \<Rightarrow> string \<Rightarrow> string list \<Rightarrow> 'w st \<Rightarrow> bool \<times> 'w st" where
  "pods_loop t namespace [] s = (True, s)"
| "pods_loop t namespace (pod # pods) s =
     (let s1 = printDetails t pod ''Description of pod'' ''~''
                 (\<lambda>item. call (KubectlDescribePod namespace pod) (DescribePod (kubectl t) namespace pod))
                 [pod] s
      in case call (KubectlGetInitContainers namespace pod)
                (GetInitContainers (kubectl t) namespace pod) s1 of
           ((initContainers, Some err), s2) \<Rightarrow>
             (False, println (''Error printing logs: '' @ Error_msg err) s2)
         | ((initContainers, None), s2) \<Rightarrow>
             (let s3 = printDetails t pod ''Logs of init container'' ''-''
                         (\<lambda>item. call (KubectlLogs namespace pod item) (Logs (kubectl t) namespace pod item))
                         initContainers s2
              in case call (KubectlGetContainers namespace pod)
                        (GetContainers (kubectl t) namespace pod) s3 of
                   ((containers, Some err), s4) \<Rightarrow>
                     (False, println (''Error printing logs: '' @ Error_msg err) s4)
                 | ((containers, None), s4) \<Rightarrow>
                     pods_loop t namespace pods
                       (printDetails t pod ''Logs of container'' ''-''
                          (\<lambda>item. call (KubectlLogs namespace pod item) (Logs (kubectl t) namespace pod item))
                          containers s4)))"

definition PrintPodDetailsAndLogs :: "'w Testing \<Rightarrow> string \<Rightarrow> string \<Rightarrow> 'w st \<Rightarrow> 'w st" where
  "PrintPodDetailsAndLogs t namespace selector s =
     (let args = [''--no-headers'', ''--namespace'', namespace, ''--selector'', selector,
                  ''--output'', ''jsonpath={.items[*].metadata.name}'']
      in case call (KubectlGetPods args) (GetPods (kubectl t) args) s of
           ((pods, Some err), s1) \<Rightarrow> println (''Error printing logs: '' @ Error_msg err) s1
         | ((pods, None), s1) \<Rightarrow>
             (case pods_loop t namespace pods (PrintDelimiterLine t ''='' s1) of
                (False, s2) \<Rightarrow> s2
              | (True, s2) \<Rightarrow> PrintDelimiterLine t ''='' s2))"

text \<open>
  \<^verbatim>\<open>generateInstallConfig\<close> touches nothing; the clean-up it returns is a function of
  the state, run by the caller. In the second branch \<^verbatim>\<open>releaseSelector\<close> keeps its
  zero value.
\<close>

definition generateInstallConfig :: "'w Testing \<Rightarrow> string \<Rightarrow>
    string \<times> string \<times> string \<times> ('w st \<Rightarrow> 'w st)" where
  "generateInstallConfig t chart =
     (if Namespace (config t) \<noteq> '''' then
        (let namespace = Namespace (config t);
             release = fst (CreateInstallParams (util t) chart (BuildId (config t)));
             releaseSelector = ReleaseLabel (config t) @ ''='' @ release;
             cleanup = (\<lambda>s.
               (let s1 = PrintPodDetailsAndLogs t namespace releaseSelector s
                in snd (call (HelmDeleteRelease release) (DeleteRelease (helm t) release) s1)))
         in (namespace, release, releaseSelector, cleanup))
      else
        (let release = fst (CreateInstallParams (util t) chart (BuildId (config t)));
             namespace = snd (CreateInstallParams (util t) chart (BuildId (config t)));
             releaseSelector = '''';
             cleanup = (\<lambda>s.
               (let s1 = PrintPodDetailsAndLogs t namespace releaseSelector s;
                    s2 = snd (call (HelmDeleteRelease release) (DeleteRelease (helm t) release) s1)
                in snd (call (KubectlDeleteNamespace namespace) (DeleteNamespace (kubectl t) namespace) s2)))
         in (namespace, release, releaseSelector, cleanup)))"

text \<open>
  The anonymous function of \<^verbatim>\<open>doInstall\<close>, run once per values file. The deferred
  clean-up runs after the body, whatever the body returns.
\<close>

definition doInstall_fun :: "'w Testing \<Rightarrow> string \<Rightarrow> string \<Rightarrow> 'w st \<Rightarrow> error option \<times> 'w st" where
  "doInstall_fun t chart valuesFile s =
     (case generateInstallConfig t chart of
        (namespace, release, releaseSelector, cleanup) \<Rightarrow>
          (case (case call (HelmInstallWithValues chart valuesFile namespace release)
                        (InstallWithValues (helm t) chart valuesFile namespace release) s of
                   (Some err, s1) \<Rightarrow> (Some err, s1)
                 | (None, s1) \<Rightarrow> testRelease t release namespace releaseSelector False s1) of
             (r, s2) \<Rightarrow> (r, cleanup s2)))"

fun doInstall_loop :: "'w Testing \<Rightarrow> string \<Rightarrow> string list \<Rightarrow> 'w st \<Rightarrow> error option \<times> 'w st" where
  "doInstall_loop t chart [] s = (None, s)"
| "doInstall_loop t chart (valuesFile # valuesFiles) s =
     (let s1 = (if valuesFile \<noteq> ''''
                then print (''\<newline>Installing chart with values file '' @ quoted valuesFile @ ''...\<newline>\<newline>'') s
                else s)
      in case doInstall_fun t chart valuesFile s1 of
           (Some err, s2) \<Rightarrow> (Some err, s2)
         | (None, s2) \<Rightarrow> doInstall_loop t chart valuesFiles s2)"

definition doInstall :: "'w Testing \<Rightarrow> string \<Rightarrow> 'w st \<Rightarrow> error option \<times> 'w st" where
  "doInstall t chart s =
     (let s1 = print (''Installing chart '' @ quoted chart @ ''...\<newline>'') s;
          valuesFiles = FindValuesFilesForCI t chart s1;
          valuesFiles = (if length valuesFiles = 0 then valuesFiles @ [''''] else valuesFiles)
      in doInstall_loop t chart valuesFiles s1)"

text \<open>
  The anonymous function of \<^verbatim>\<open>doUpgrade\<close>: its body, and the body followed by the
  deferred clean-up.
\<close>

definition doUpgrade_body :: "'w Testing \<Rightarrow> string \<Rightarrow> string \<Rightarrow> bool \<Rightarrow>
    string \<Rightarrow> string \<Rightarrow> string \<Rightarrow> 'w st \<Rightarrow> error option \<times> 'w st" where
  "doUpgrade_body t oldChart valuesFile oldChartMustPass namespace release releaseSelector s =
     (case call (HelmInstallWithValues oldChart valuesFile namespace release)
             (InstallWithValues (helm t) oldChart valuesFile namespace release) s of
        (Some err, s1) \<Rightarrow>
          if oldChartMustPass then (Some err, s1)
          else (None, println (Error_msg (Wrap err (''Upgrade testing for release '' @ quoted release
                  @ '' skipped because of previous revision installation error''))) s1)
      | (None, s1) \<Rightarrow>
          (case testRelease t release namespace releaseSelector True s1 of
             (Some err, s2) \<Rightarrow>
               if oldChartMustPass then (Some err, s2)
               else (None, println (Error_msg (Wrap err (''Upgrade testing for release '' @ quoted release
                       @ '' skipped because of previous revision testing error''))) s2)
           | (None, s2) \<Rightarrow>
               (case call (HelmUpgrade oldChart release) (Upgrade (helm t) oldChart release) s2 of
                  (Some err, s3) \<Rightarrow> (Some err, s3)
                | (None, s3) \<Rightarrow> testRelease t release namespace releaseSelector False s3)))"

definition doUpgrade_fun :: "'w Testing \<Rightarrow> string \<Rightarrow> string \<Rightarrow> bool \<Rightarrow> 'w st \<Rightarrow> error option \<times> 'w st" where
  "doUpgrade_fun t oldChart valuesFile oldChartMustPass s =
     (case generateInstallConfig t oldChart of
        (namespace, release, releaseSelector, cleanup) \<Rightarrow>
          (case doUpgrade_body t oldChart valuesFile oldChartMustPass namespace release releaseSelector s of
             (r, s1) \<Rightarrow> (r, cleanup s1)))"

fun doUpgrade_loop :: "'w Testing \<Rightarrow> string \<Rightarrow> bool \<Rightarrow> string list \<Rightarrow> 'w st \<Rightarrow> error option \<times> 'w st" where
  "doUpgrade_loop t oldChart oldChartMustPass [] s = (None, s)"
| "doUpgrade_loop t oldChart oldChartMustPass (valuesFile # valuesFiles) s =
     (let s1 = (if valuesFile \<noteq> ''''
                then print (''\<newline>Installing chart '' @ quoted oldChart @ '' with values file ''
                            @ quoted valuesFile @ ''...\<newline>\<newline>'') s
                else s)
      in case doUpgrade_fun t oldChart valuesFile oldChartMustPass s1 of
           (Some err, s2) \<Rightarrow> (Some err, s2)
         | (None, s2) \<Rightarrow> doUpgrade_loop t oldChart oldChartMustPass valuesFiles s2)"

definition doUpgrade :: "'w Testing \<Rightarrow> string \<Rightarrow> string \<Rightarrow> bool \<Rightarrow> 'w st \<Rightarrow> error option \<times> 'w st" where
  "doUpgrade t oldChart newChart oldChartMustPass s =
     (let s1 = print (''Testing upgrades of chart '' @ quoted newChart
                      @ '' relative to previous revision '' @ quoted oldChart @ ''...\<newline>'') s;
          valuesFiles = FindValuesFilesForCI t oldChart s1;
          valuesFiles = (if length valuesFiles = 0 then valuesFiles @ [''''] else valuesFiles)
      in doUpgrade_loop t oldChart oldChartMustPass valuesFiles s1)"

definition UpgradeChart :: "'w Testing \<Rightarrow> string \<Rightarrow> 'w st \<Rightarrow> TestResult \<times> 'w st" where
  "UpgradeChart t chart s =
     (let result = \<lparr>Chart = chart, Error = None\<rparr>
      in case checkBreakingChangeAllowed t chart s of
           ((breakingChangeAllowed, err), s1) \<Rightarrow>
             if breakingChangeAllowed then
               (case err of
                  Some e \<Rightarrow>
                    (result, println (Error_msg (Wrap e (''Skipping upgrade test of '' @ quoted chart
                               @ '' because''))) s1)
                | None \<Rightarrow> (result, s1))
             else
               (case err of
                  Some e \<Rightarrow>
                    (result\<lparr>Error := Some e\<rparr>,
                     print (''Error comparing chart versions for '' @ quoted chart @ ''\<newline>'') s1)
                | None \<Rightarrow>
                    (case doUpgrade t (computePreviousRevisionPath t chart) chart False s1 of
                       (e, s2) \<Rightarrow> (result\<lparr>Error := e\<rparr>, s2))))"

definition InstallChart :: "'w Testing \<Rightarrow> string \<Rightarrow> string list \<Rightarrow> 'w st \<Rightarrow> TestResult \<times> 'w st" where
  "InstallChart t chart valuesFiles s =
     (let install = (\<lambda>s.
            case doInstall t chart s of (e, s') \<Rightarrow> (\<lparr>Chart = chart, Error = e\<rparr>, s'))
      in if Upgrade_cfg (config t) then
           (case UpgradeChart t chart s of
              (result, s1) \<Rightarrow>
                if Error result \<noteq> None then (result, s1)
                else
                  (case doUpgrade t chart chart True s1 of
                     (Some err, s2) \<Rightarrow> (result\<lparr>Error := Some err\<rparr>, s2)
                   | (None, s2) \<Rightarrow> install s2))
         else install s)"

section \<open>Lint pipeline\<close>

fun yamllint_loop :: "'w Testing \<Rightarrow> string list \<Rightarrow> 'w st \<Rightarrow> error option \<times> 'w st" where
  "yamllint_loop t [] s = (None, s)"
| "yamllint_loop t (yamlFile # yamlFiles) s =
     (case call (LinterYamlLint yamlFile (LintConf (config t)))
             (YamlLint (linter t) yamlFile (LintConf (config t))) s of
        (Some err, s1) \<Rightarrow> (Some err, s1)
      | (None, s1) \<Rightarrow> yamllint_loop t yamlFiles s1)"

text \<open>The last loop of \<^verbatim>\<open>LintChart\<close>: the first error ends it.\<close>

fun lint_loop :: "'w Testing \<Rightarrow> string \<Rightarrow> string list \<Rightarrow> 'w st \<Rightarrow> error option \<times> 'w st" where
  "lint_loop t chart [] s = (None, s)"
| "lint_loop t chart (valuesFile # valuesFiles) s =
     (let s1 = (if valuesFile \<noteq> ''''
                then print (''\<newline>Linting chart with values file '' @ quoted valuesFile @ ''...\<newline>\<newline>'') s
                else s)
      in case call (HelmLintWithValues chart valuesFile) (LintWithValues (helm t) chart valuesFile) s1 of
           (Some err, s2) \<Rightarrow> (Some err, s2)
         | (None, s2) \<Rightarrow> lint_loop t chart valuesFiles s2)"

text \<open>
  The stages of \<^verbatim>\<open>LintChart\<close> one after the other; each early \<^verbatim>\<open>return result\<close>
  carries the error of its stage.
\<close>

definition LintChart_stages :: "'w Testing \<Rightarrow> string \<Rightarrow> string list \<Rightarrow> 'w st \<Rightarrow> error option \<times> 'w st" where
  "LintChart_stages t chart valuesFiles s =
     (case (if CheckVersionIncrement_cfg (config t) then CheckVersionIncrement t chart s else (None, s)) of
        (Some err, s1) \<Rightarrow> (Some err, s1)
      | (None, s1) \<Rightarrow>
          (let chartYaml = path_Join (stdlib t) [chart, ''Chart.yaml''];
               valuesYaml = path_Join (stdlib t) [chart, ''values.yaml'']
           in case (if ValidateChartSchema (config t)
                    then call (LinterYamale chartYaml (ChartYamlSchema (config t)))
                           (Yamale (linter t) chartYaml (ChartYamlSchema (config t))) s1
                    else (None, s1)) of
                (Some err, s2) \<Rightarrow> (Some err, s2)
              | (None, s2) \<Rightarrow>
                  (case (if ValidateYaml (config t)
                         then yamllint_loop t ([chartYaml, valuesYaml] @ valuesFiles) s2
                         else (None, s2)) of
                     (Some err, s3) \<Rightarrow> (Some err, s3)
                   | (None, s3) \<Rightarrow>
                       (case (if ValidateMaintainers_cfg (config t)
                              then ValidateMaintainers t chart s3 else (None, s3)) of
                          (Some err, s4) \<Rightarrow> (Some err, s4)
                        | (None, s4) \<Rightarrow>
                            (let valuesFiles =
                                   (if length valuesFiles = 0 then valuesFiles @ [''''] else valuesFiles)
                             in lint_loop t chart valuesFiles s4)))))"

definition LintChart :: "'w Testing \<Rightarrow> string \<Rightarrow> string list \<Rightarrow> 'w st \<Rightarrow> TestResult \<times> 'w st" where
  "LintChart t chart valuesFiles s =
     (case LintChart_stages t chart valuesFiles
             (print (''Linting chart '' @ quoted chart @ ''\<newline>'') s) of
        (e, s1) \<Rightarrow> (\<lparr>Chart = chart, Error = e\<rparr>, s1))"

definition LintAndInstallChart :: "'w Testing \<Rightarrow> string \<Rightarrow> string list \<Rightarrow> 'w st \<Rightarrow> TestResult \<times> 'w st" where
  "LintAndInstallChart t chart valuesFiles s =
     (case LintChart t chart valuesFiles s of
        (result, s1) \<Rightarrow>
          if Error result \<noteq> None then (result, s1)
          else InstallChart t chart valuesFiles s1)"

section \<open>Chart selection\<close>

fun changed_loop :: "'w Testing \<Rightarrow> string list \<Rightarrow> string list \<Rightarrow> 'w st \<Rightarrow> string list \<times> 'w st" where
  "changed_loop t [] changedChartDirs s = (changedChartDirs, s)"
| "changed_loop t (file # files) changedChartDirs s =
     (let cfg = config t;
          pathElements = SplitN (filepath_ToSlash (stdlib t) file) (CHR ''/'') 3
      in if length pathElements < 2 then changed_loop t files changedChartDirs s
         else if StringSliceContains (ExcludedCharts cfg) (pathElements ! 1)
         then changed_loop t files changedChartDirs s
         else
           (let dir = filepath_Dir (stdlib t) file
            in case call (ChartUtilsLookupChartDir (ChartDirs cfg) dir)
                      (LookupChartDir (chartUtils t) (ChartDirs cfg) dir) s of
                 ((chartDir, None), s1) \<Rightarrow>
                   if \<not> StringSliceContains changedChartDirs chartDir
                   then changed_loop t files (changedChartDirs @ [chartDir]) s1
                   else changed_loop t files changedChartDirs s1
               | ((chartDir, Some err), s1) \<Rightarrow>
                   changed_loop t files changedChartDirs
                     (print (''Directory '' @ quoted chartDir @ '' is no chart directory. Skipping...'') s1)))"

definition ComputeChangedChartDirectories :: "'w Testing \<Rightarrow> 'w st \<Rightarrow> (string list \<times> error option) \<times> 'w st" where
  "ComputeChangedChartDirectories t s =
     (let cfg = config t
      in case computeMergeBase t s of
           ((mergeBase, Some err), s1) \<Rightarrow> (([], Some err), s1)
         | ((mergeBase, None), s1) \<Rightarrow>
             (case call (GitListChangedFilesInDirs mergeBase (ChartDirs cfg))
                     (ListChangedFilesInDirs (git t) mergeBase (ChartDirs cfg)) s1 of
                ((allChangedChartFiles, Some err), s2) \<Rightarrow>
                  (([], Some (Wrap err ''Error creating diff'')), s2)
              | ((allChangedChartFiles, None), s2) \<Rightarrow>
                  (case changed_loop t allChangedChartFiles [] s2 of
                     (changedChartDirs, s3) \<Rightarrow> ((changedChartDirs, None), s3))))"

fun readAll_loop :: "'w Testing \<Rightarrow> string list \<Rightarrow> string list \<Rightarrow> 'w st \<Rightarrow> (string list \<times> error option) \<times> 'w st" where
  "readAll_loop t [] chartDirs s = ((chartDirs, None), s)"
| "readAll_loop t (chartParentDir # parents) chartDirs s =
     (let cfg = config t;
          test = (\<lambda>dir w.
            case LookupChartDir (chartUtils t) (ChartDirs cfg) dir w of
              ((d, err), w') \<Rightarrow>
                (err = None \<and> \<not> StringSliceContains (ExcludedCharts cfg) (path_Base (stdlib t) dir), w'))
      in case call (DirectoryListerListChildDirs chartParentDir)
                (ListChildDirs (directoryLister t) chartParentDir test) s of
           ((dirs, Some err), s1) \<Rightarrow> (([], Some (Wrap err ''Error reading chart directories'')), s1)
         | ((dirs, None), s1) \<Rightarrow> readAll_loop t parents (chartDirs @ dirs) s1)"

definition ReadAllChartDirectories :: "'w Testing \<Rightarrow> 'w st \<Rightarrow> (string list \<times> error option) \<times> 'w st" where
  "ReadAllChartDirectories t s = readAll_loop t (ChartDirs (config t)) [] s"

definition FindChartsToBeProcessed :: "'w Testing \<Rightarrow> 'w st \<Rightarrow> (string list \<times> error option) \<times> 'w st" where
  "FindChartsToBeProcessed t s =
     (let cfg = config t
      in if ProcessAllCharts cfg then ReadAllChartDirectories t s
         else if length (Charts cfg) > 0 then ((Charts cfg, None), s)
         else ComputeChangedChartDirectories t s)"

section \<open>Orchestrator\<close>

text \<open>The first loop of \<^verbatim>\<open>processCharts\<close>: the extra arguments of each repository.\<close>

fun repoArgs_loop :: "string list \<Rightarrow> (string \<rightharpoonup> string list) \<Rightarrow> (string \<rightharpoonup> string list) outcome" where
  "repoArgs_loop [] repoArgs = Return repoArgs"
| "repoArgs_loop (repo # repos) repoArgs =
     (let repoSlice = SplitN repo (CHR ''='') 2
      in case index repoSlice 0 of
           Panic p \<Rightarrow> Panic p
         | Return name \<Rightarrow>
             (case index repoSlice 1 of
                Panic p \<Rightarrow> Panic p
              | Return a \<Rightarrow> repoArgs_loop repos (repoArgs(name \<mapsto> Fields a))))"

text \<open>
  The second loop: one \<^verbatim>\<open>AddRepo\<close> per configured repository. A name without extra
  arguments reads the zero value of the map, the empty slice.
\<close>

fun addRepos_loop :: "'w Testing \<Rightarrow> (string \<rightharpoonup> string list) \<Rightarrow> string list \<Rightarrow> 'w st \<Rightarrow>
    error option outcome \<times> 'w st" where
  "addRepos_loop t repoArgs [] s = (Return None, s)"
| "addRepos_loop t repoArgs (repo # repos) s =
     (let repoSlice = SplitN repo (CHR ''='') 2
      in case index repoSlice 0 of
           Panic p \<Rightarrow> (Panic p, s)
         | Return name \<Rightarrow>
             (case index repoSlice 1 of
                Panic p \<Rightarrow> (Panic p, s)
              | Return url \<Rightarrow>
                  (let repoExtraArgs = (case repoArgs name of None \<Rightarrow> [] | Some a \<Rightarrow> a)
                   in case call (HelmAddRepo name url repoExtraArgs)
                             (AddRepo (helm t) name url repoExtraArgs) s of
                        (Some err, s1) \<Rightarrow>
                          (Return (Some (Wrap err (''Error adding repo: '' @ name @ ''='' @ url))), s1)
                      | (None, s1) \<Rightarrow> addRepos_loop t repoArgs repos s1)))"

text \<open>Building the dependencies of the previous revisions: an error is printed, no more.\<close>

fun buildPrevious_loop :: "'w Testing \<Rightarrow> string list \<Rightarrow> 'w st \<Rightarrow> 'w st" where
  "buildPrevious_loop t [] s = s"
| "buildPrevious_loop t (chart # charts) s =
     (case call (HelmBuildDependencies (computePreviousRevisionPath t chart))
             (BuildDependencies (helm t) (computePreviousRevisionPath t chart)) s of
        (Some err, s1) \<Rightarrow>
          buildPrevious_loop t charts
            (println (Error_msg (Wrap err (''Error building dependencies for previous revision of chart ''
               @ quoted chart @ ''\<newline>''))) s1)
      | (None, s1) \<Rightarrow> buildPrevious_loop t charts s1)"

text \<open>
  The loop over the charts, with the two \<^verbatim>\<open>return\<close> statements that follow it as its
  base case. \<open>ok\<close> is \<^verbatim>\<open>testResults.OverallSuccess\<close>.
\<close>

fun charts_loop :: "'w Testing \<Rightarrow> (string \<Rightarrow> string list \<Rightarrow> 'w st \<Rightarrow> TestResult \<times> 'w st) \<Rightarrow>
    string list \<Rightarrow> TestResult list \<Rightarrow> bool \<Rightarrow> 'w st \<Rightarrow> (TestResult list \<times> error option) \<times> 'w st" where
  "charts_loop t action [] results ok s =
     (if ok then ((results, None), s)
      else ((results, Some (ErrorNew ''Error processing charts'')), s))"
| "charts_loop t action (chart # charts) results ok s =
     (let valuesFiles = FindValuesFilesForCI t chart s
      in case call (HelmBuildDependencies chart) (BuildDependencies (helm t) chart) s of
           (Some err, s1) \<Rightarrow>
             (([], Some (Wrap err (''Error building dependencies for chart '' @ quoted chart))), s1)
         | (None, s1) \<Rightarrow>
             (case action chart valuesFiles s1 of
                (result, s2) \<Rightarrow>
                  charts_loop t action charts (results @ [result])
                    (if Error result \<noteq> None then False else ok) s2))"

definition print_charts :: "'w Testing \<Rightarrow> string list \<Rightarrow> 'w st \<Rightarrow> 'w st" where
  "print_charts t charts s =
     (let s1 = println '''' s;
          s2 = PrintDelimiterLine t ''-'' s1;
          s3 = println '' Charts to be processed:'' s2;
          s4 = PrintDelimiterLine t ''-'' s3;
          s5 = fold (\<lambda>chart. print ('' '' @ chart @ ''\<newline>'')) charts s4;
          s6 = PrintDelimiterLine t ''-'' s5
      in println '''' s6)"

text \<open>
  What follows the registration of the repositories. With upgrade testing the removal
  of the working tree is deferred: it runs after the loop over the charts, whatever the
  loop returns.
\<close>

definition process_selected :: "'w Testing \<Rightarrow> (string \<Rightarrow> string list \<Rightarrow> 'w st \<Rightarrow> TestResult \<times> 'w st) \<Rightarrow>
    string list \<Rightarrow> 'w st \<Rightarrow> (TestResult list \<times> error option) \<times> 'w st" where
  "process_selected t action charts s =
     (if Upgrade_cfg (config t) then
        (case computeMergeBase t s of
           ((mergeBase, Some err), s1) \<Rightarrow> (([], Some (Wrap err ''Error identifying merge base'')), s1)
         | ((mergeBase, None), s1) \<Rightarrow>
             (case call (GitAddWorkingTree ctPreviousRevisionTree mergeBase)
                     (AddWorkingTree (git t) ctPreviousRevisionTree mergeBase) s1 of
                (discarded, s2) \<Rightarrow>
                  (case charts_loop t action charts [] True (buildPrevious_loop t charts s2) of
                     (r, s3) \<Rightarrow>
                       (r, snd (call (GitRemoveWorkingTree ctPreviousRevisionTree)
                                  (RemoveWorkingTree (git t) ctPreviousRevisionTree) s3)))))
      else charts_loop t action charts [] True s)"

definition processCharts :: "'w Testing \<Rightarrow> (string \<Rightarrow> string list \<Rightarrow> 'w st \<Rightarrow> TestResult \<times> 'w st) \<Rightarrow>
    'w st \<Rightarrow> (TestResult list \<times> error option) outcome \<times> 'w st" where
  "processCharts t action s =
     (case FindChartsToBeProcessed t s of
        ((charts, Some err), s1) \<Rightarrow>
          (Return ([], Some (Wrap err ''Error identifying charts to process'')), s1)
      | ((charts, None), s1) \<Rightarrow>
          if length charts = 0 then (Return ([], None), s1)
          else
            (case call HelmInit (Init (helm t)) (print_charts t charts s1) of
               (Some err, s2) \<Rightarrow> (Return ([], Some (Wrap err ''Error initializing Helm'')), s2)
             | (None, s2) \<Rightarrow>
                 (case repoArgs_loop (HelmRepoExtraArgs (config t)) Map.empty of
                    Panic p \<Rightarrow> (Panic p, s2)
                  | Return repoArgs \<Rightarrow>
                      (case addRepos_loop t repoArgs (ChartRepos (config t)) s2 of
                         (Panic p, s3) \<Rightarrow> (Panic p, s3)
                       | (Return (Some err), s3) \<Rightarrow> (Return ([], Some err), s3)
                       | (Return None, s3) \<Rightarrow>
                           (case process_selected t action charts s3 of
                              (r, s4) \<Rightarrow> (Return r, s4))))))"




section \<open>Observing a run\<close>

text \<open>The calls of collaborator methods among the events, without the printed text.\<close>

fun is_call :: "event \<Rightarrow> bool" where
  "is_call (Stdout txt) = False"
| "is_call ev = True"

definition calls :: "event list \<Rightarrow> event list" where
  "calls evs = filter is_call evs"

text \<open>The printed text among the events.\<close>

fun stdout_of :: "event \<Rightarrow> string" where
  "stdout_of (Stdout txt) = txt"
| "stdout_of ev = ''''"

definition printed :: "event list \<Rightarrow> string list" where
  "printed evs = map stdout_of (filter (\<lambda>ev. \<not> is_call ev) evs)"

text \<open>
  The events that exercise the new revision in an upgrade test: \<^verbatim>\<open>helm upgrade\<close>, and
  the \<^verbatim>\<open>helm test\<close> that follows it (the one that keeps its test pods).
\<close>

fun exercises_new :: "event \<Rightarrow> bool" where
  "exercises_new (HelmUpgrade chart release) = True"
| "exercises_new (HelmTest release cleanup) = (\<not> cleanup)"
| "exercises_new ev = False"

text \<open>Events of the clean-up: printed text, pod diagnostics, and the two deletions.\<close>

fun is_cleanup :: "event \<Rightarrow> bool" where
  "is_cleanup (Stdout txt) = True"
| "is_cleanup (KubectlGetPods args) = True"
| "is_cleanup (KubectlDescribePod namespace pod) = True"
| "is_cleanup (KubectlLogs namespace pod container) = True"
| "is_cleanup (KubectlGetInitContainers namespace pod) = True"
| "is_cleanup (KubectlGetContainers namespace pod) = True"
| "is_cleanup (HelmDeleteRelease release) = True"
| "is_cleanup (KubectlDeleteNamespace namespace) = True"
| "is_cleanup ev = False"

text \<open>\<open>s'\<close> continues \<open>s\<close> by events that all satisfy \<open>P\<close>.\<close>

definition appends :: "(event \<Rightarrow> bool) \<Rightarrow> 'w st \<Rightarrow> 'w st \<Rightarrow> bool" where
  "appends P s s' = (\<exists>evs. trace s' = trace s @ evs \<and> list_all P evs)"

section \<open>What change detection is to compute\<close>

text \<open>
  The specification of \<^verbatim>\<open>ComputeChangedChartDirectories\<close> in its own words, to be
  compared with the loop of the source. \<open>first_seen\<close> removes duplicates and keeps
  the first occurrence of each element. A changed file is \<open>considered\<close> when it has a
  second path segment and that segment is not an excluded chart; \<open>chart_root_of\<close> is
  what the look-up of the chart root answers for the directory of the file, in a given
  world; the \<open>resolved_chart_roots\<close> are the roots of the considered files whose
  look-up succeeds, in the order of the files, and the \<open>orphaned_files\<close> are the
  considered files whose look-up fails.
\<close>

function first_seen :: "'a list \<Rightarrow> 'a list" where
  "first_seen [] = []"
| "first_seen (x # xs) = x # first_seen (filter (\<lambda>y. y \<noteq> x) xs)"
  by pat_completeness auto
termination
  by (relation "measure length") (auto simp add: less_Suc_eq_le)

definition considered :: "'w Testing \<Rightarrow> string \<Rightarrow> bool" where
  "considered t file =
     (let pathElements = SplitN (filepath_ToSlash (stdlib t) file) (CHR ''/'') 3
      in 2 \<le> length pathElements \<and> pathElements ! 1 \<notin> set (ExcludedCharts (config t)))"

definition chart_root_of :: "'w Testing \<Rightarrow> 'w \<Rightarrow> string \<Rightarrow> string \<times> error option" where
  "chart_root_of t w file =
     fst (LookupChartDir (chartUtils t) (ChartDirs (config t)) (filepath_Dir (stdlib t) file) w)"

definition resolved_chart_roots :: "'w Testing \<Rightarrow> 'w \<Rightarrow> string list \<Rightarrow> string list" where
  "resolved_chart_roots t w files =
     map (\<lambda>file. fst (chart_root_of t w file))
       (filter (\<lambda>file. considered t file \<and> snd (chart_root_of t w file) = None) files)"

definition orphaned_files :: "'w Testing \<Rightarrow> 'w \<Rightarrow> string list \<Rightarrow> string list" where
  "orphaned_files t w files = filter (\<lambda>file. considered t file \<and> snd (chart_root_of t w file) \<noteq> None) files"

section \<open>A test double\<close>

text \<open>
  Stand-ins for the collaborators, in the manner of the fakes of a unit test: a world
  with nothing in it, where every call succeeds unless said otherwise. The theorems
  below hold for all collaborators; the double only supplies concrete runs.
\<close>

definition compare3 :: "'a::linorder \<Rightarrow> 'a \<Rightarrow> int" where
  "compare3 a b = (if a < b then - 1 else if a = b then 0 else 1)"

fun digits_val :: "string \<Rightarrow> nat \<Rightarrow> nat" where
  "digits_val [] n = n"
| "digits_val (c # cs) n = digits_val cs (10 * n + (of_char c - 48))"

definition version_key :: "string \<Rightarrow> nat \<times> nat \<times> nat" where
  "version_key v =
     (case map (\<lambda>p. digits_val p 0) (SplitN v (CHR ''.'') 3) of
        [a, b, c] \<Rightarrow> (a, b, c)
      | _ \<Rightarrow> (0, 0, 0))"

definition version_rank :: "nat \<times> nat \<times> nat \<Rightarrow> nat" where
  "version_rank v = (case v of (a, b, c) \<Rightarrow> (a * 1000 + b) * 1000 + c)"

definition double_Join :: "string list \<Rightarrow> string" where
  "double_Join xs = (case xs of [] \<Rightarrow> [] | x # ys \<Rightarrow> foldl (\<lambda>a b. a @ ''/'' @ b) x ys)"

definition double_Dir :: "string \<Rightarrow> string" where
  "double_Dir p =
     (if CHR ''/'' \<in> set p then rev (tl (dropWhile (\<lambda>c. c \<noteq> CHR ''/'') (rev p))) else ''.'')"

definition double_Base :: "string \<Rightarrow> string" where
  "double_Base p = rev (takeWhile (\<lambda>c. c \<noteq> CHR ''/'') (rev p))"

definition double_manifest :: "string \<Rightarrow> ChartYaml" where
  "double_manifest chart =
     (let alice = \<lparr>Name = ''alice'', Email = ''alice@example.com''\<rparr>;
          mallory = \<lparr>Name = ''mallory'', Email = ''''\<rparr>
      in if chart = ''charts/retired'' then \<lparr>Version = ''1.3.0'', Deprecated = True, Maintainers = [alice]\<rparr>
         else if chart = ''charts/gone'' then \<lparr>Version = ''1.3.0'', Deprecated = True, Maintainers = []\<rparr>
         else if chart = ''charts/orphan'' then \<lparr>Version = ''1.3.0'', Deprecated = False, Maintainers = []\<rparr>
         else if chart = ''charts/bad'' then \<lparr>Version = ''1.2.0'', Deprecated = False, Maintainers = [alice, mallory]\<rparr>
         else if chart = ''charts/stale'' then \<lparr>Version = ''1.1.9'', Deprecated = False, Maintainers = [alice]\<rparr>
         else if chart = ''charts/major'' then \<lparr>Version = ''2.0.0'', Deprecated = False, Maintainers = [alice]\<rparr>
         else \<lparr>Version = ''1.3.0'', Deprecated = False, Maintainers = [alice]\<rparr>)"

definition double_git :: "unit Git" where
  "double_git =
     \<lparr>FileExistsOnBranch = (\<lambda>file remote branch w. (file \<noteq> ''charts/new/Chart.yaml'', w)),
      Show = (\<lambda>file remote branch w. ((''1.2.0'', None), w)),
      AddWorkingTree = (\<lambda>p ref w. (None, w)),
      RemoveWorkingTree = (\<lambda>p w. (None, w)),
      MergeBase = (\<lambda>commit1 commit2 w. ((''abc123'', None), w)),
      ListChangedFilesInDirs = (\<lambda>commit dirs w. (([], None), w)),
      GetUrlForRemote = (\<lambda>remote w. ((''github.com'', None), w)),
      ValidateRepository = (\<lambda>w. (None, w))\<rparr>"

definition double_helm :: "unit Helm" where
  "double_helm =
     \<lparr>Init = (\<lambda>w. (None, w)),
      AddRepo = (\<lambda>name url extraArgs w. (None, w)),
      BuildDependencies = (\<lambda>chart w. (None, w)),
      LintWithValues = (\<lambda>chart valuesFile w. (None, w)),
      InstallWithValues = (\<lambda>chart valuesFile namespace release w. (None, w)),
      Upgrade = (\<lambda>chart release w. (None, w)),
      Test = (\<lambda>release cleanup w. (None, w)),
      DeleteRelease = (\<lambda>release w. ((), w))\<rparr>"

definition double_kubectl :: "unit Kubectl" where
  "double_kubectl =
     \<lparr>DeleteNamespace = (\<lambda>namespace w. ((), w)),
      WaitForDeployments = (\<lambda>namespace selector w. (None, w)),
      GetPods = (\<lambda>args w. (([], None), w)),
      DescribePod = (\<lambda>namespace pod w. (None, w)),
      Logs = (\<lambda>namespace pod container w. (None, w)),
      GetInitContainers = (\<lambda>namespace pod w. (([], None), w)),
      GetContainers = (\<lambda>namespace pod w. (([], None), w))\<rparr>"

definition double_linter :: "unit Linter" where
  "double_linter =
     \<lparr>YamlLint = (\<lambda>yamlFile configFile w. (None, w)),
      Yamale = (\<lambda>yamlFile schemaFile w. (None, w))\<rparr>"

definition double_config :: Configuration where
  "double_config =
     \<lparr>Remote = ''origin'', TargetBranch = ''master'', BuildId = ''42'', LintConf = ''lintconf.yaml'',
      ChartYamlSchema = ''chart_schema.yaml'', ValidateMaintainers_cfg = True,
      ValidateChartSchema = True, ValidateYaml = True, CheckVersionIncrement_cfg = True,
      ProcessAllCharts = False, Charts = [], ChartRepos = [], ChartDirs = [''charts''],
      ExcludedCharts = [], HelmRepoExtraArgs = [], Upgrade_cfg = False, Namespace = '''',
      ReleaseLabel = ''app.kubernetes.io/instance''\<rparr>"

definition double :: "unit Testing" where
  "double =
     \<lparr>config = double_config,
      helm = double_helm,
      kubectl = double_kubectl,
      git = double_git,
      linter = double_linter,
      accountValidator =
        \<lparr>Validate = (\<lambda>repoDomain account w.
           (if account = ''mallory'' then Some (ErrorNew ''no such account'') else None, w))\<rparr>,
      directoryLister = \<lparr>ListChildDirs = (\<lambda>parentDir test w. (([], None), w))\<rparr>,
      chartUtils =
        \<lparr>LookupChartDir = (\<lambda>chartDirs dir w.
           (if dir = ''charts/foo'' \<or> dir = ''charts/foo/templates'' then (''charts/foo'', None)
            else if dir = ''charts/bar'' then (''charts/bar'', None)
            else ('''', Some (ErrorNew ''no chart directory'')), w)),
         ReadChartYaml = (\<lambda>chart w.
           ((double_manifest chart,
             if chart = ''charts/unreadable'' then Some (ErrorNew ''cannot read Chart.yaml'') else None), w))\<rparr>,
      util =
        \<lparr>CompareVersions = (\<lambda>left right.
           (compare3 (version_rank (version_key left)) (version_rank (version_key right)), None)),
         BreakingChangeAllowed = (\<lambda>left right.
           (fst (version_key left) \<noteq> fst (version_key right), None)),
         util_ReadChartYaml = (\<lambda>contents.
           (\<lparr>Version = contents, Deprecated = False, Maintainers = []\<rparr>, None)),
         CreateInstallParams = (\<lambda>chart buildId. (''release-'' @ buildId, ''namespace-'' @ buildId)),
         DelimiterLine = (\<lambda>c. c @ c @ c @ ''\<newline>'')\<rparr>,
      stdlib =
        \<lparr>path_Join = double_Join, path_Base = double_Base, filepath_Dir = double_Dir,
         filepath_ToSlash = (\<lambda>p. p), filepath_Glob = (\<lambda>pattern w. [])\<rparr>\<rparr>"


text \<open>Doubles whose previous revision cannot be installed, and whose upgrade fails.\<close>

definition double_broken_old :: "unit Testing" where
  "double_broken_old =
     double\<lparr>helm := double_helm\<lparr>InstallWithValues := (\<lambda>chart valuesFile namespace release w.
       (if chart = ''ct_previous_revision/charts/foo'' then Some (ErrorNew ''install failed'') else None, w))\<rparr>\<rparr>"

definition double_broken_upgrade :: "unit Testing" where
  "double_broken_upgrade =
     double\<lparr>helm := double_helm\<lparr>Upgrade := (\<lambda>chart release w. (Some (ErrorNew ''upgrade failed''), w))\<rparr>\<rparr>"

text \<open>
  Doubles whose diff against the merge base lists four changed files, the second with
  the chart group \<^verbatim>\<open>bar\<close> excluded.
\<close>

definition double_changed :: "unit Testing" where
  "double_changed =
     double\<lparr>git := double_git\<lparr>ListChangedFilesInDirs := (\<lambda>commit dirs w.
       (([''charts/foo/templates/x.yaml'', ''charts/bar/Chart.yaml'', ''docs/readme.md'',
          ''charts/foo/Chart.yaml''], None), w))\<rparr>\<rparr>"

definition double_changed_excluding :: "unit Testing" where
  "double_changed_excluding = double_changed\<lparr>config := double_config\<lparr>ExcludedCharts := [''bar'']\<rparr>\<rparr>"

text \<open>
  Doubles with two charts named in the configuration: one whose second chart does not
  pass \<^verbatim>\<open>helm lint\<close>, one whose Helm cannot be initialised, one where the dependencies
  of the second chart cannot be built, two with a repository entry that lacks its
  \<^verbatim>\<open>=\<close>, and one with upgrade testing where adding the working tree and building
  the dependencies of the previous revisions fail.
\<close>

definition double_two :: "unit Testing" where
  "double_two = double\<lparr>config := double_config\<lparr>Charts := [''charts/foo'', ''charts/bar'']\<rparr>\<rparr>"




definition double_bad_extra_args :: "unit Testing" where
  "double_bad_extra_args =
     double\<lparr>config := double_config\<lparr>Charts := [''charts/foo''], HelmRepoExtraArgs := [''incubator'']\<rparr>\<rparr>"

definition double_bad_repo :: "unit Testing" where
  "double_bad_repo =
     double\<lparr>config := double_config\<lparr>Charts := [''charts/foo''],
       ChartRepos := [''stable=https://example.com/stable'', ''incubator''],
       HelmRepoExtraArgs := [''stable=--username admin'']\<rparr>\<rparr>"

definition double_failing_preparation :: "unit Testing" where
  "double_failing_preparation =
     double\<lparr>config := double_config\<lparr>Charts := [''charts/foo'', ''charts/bar''], Upgrade_cfg := True\<rparr>,
       git := double_git\<lparr>AddWorkingTree := (\<lambda>p ref w. (Some (ErrorNew ''worktree exists''), w))\<rparr>,
       helm := double_helm\<lparr>BuildDependencies := (\<lambda>chart w.
         (if chart = ''ct_previous_revision/charts/foo'' \<or> chart = ''ct_previous_revision/charts/bar''
          then Some (ErrorNew ''no such repository'') else None, w))\<rparr>\<rparr>"

text \<open>An action for the doubles: the second chart fails.\<close>

definition double_action :: "string \<Rightarrow> string list \<Rightarrow> unit st \<Rightarrow> TestResult \<times> unit st" where
  "double_action chart valuesFiles s =
     (\<lparr>Chart = chart, Error = (if chart = ''charts/bar'' then Some (ErrorNew ''lint failed'') else None)\<rparr>, s)"

definition start :: "unit st" where
  "start = \<lparr>world = (), trace = []\<rparr>"

section \<open>Properties\<close>

subsection \<open>The state of a run\<close>

lemma world_print [simp]: "world (print x s) = world s"
  by (simp add: print_def)

lemma world_println [simp]: "world (println x s) = world s"
  by (simp add: println_def)

lemma world_PrintDelimiterLine [simp]: "world (PrintDelimiterLine t c s) = world s"
  by (simp add: PrintDelimiterLine_def)

lemma fst_call [simp]: "fst (call ev f s) = fst (f (world s))"
  by (simp add: call_def split: prod.splits)

lemma world_call [simp]: "world (snd (call ev f s)) = snd (f (world s))"
  by (simp add: call_def split: prod.splits)

lemma trace_call [simp]: "trace (snd (call ev f s)) = trace s @ [ev]"
  by (simp add: call_def split: prod.splits)

lemma call_eq:
  "f (world s) = (r, w) \<Longrightarrow> call ev f s = (r, \<lparr>world = w, trace = trace s @ [ev]\<rparr>)"
  by (simp add: call_def)

lemma calls_append [simp]: "calls (xs @ ys) = calls xs @ calls ys"
  by (simp add: calls_def)

lemma printed_append [simp]: "printed (xs @ ys) = printed xs @ printed ys"
  by (simp add: printed_def)

lemma trace_print [simp]: "trace (print x s) = trace s @ [Stdout x]"
  by (simp add: print_def)

lemma trace_println [simp]: "trace (println x s) = trace s @ [Stdout (x @ ''\<newline>'')]"
  by (simp add: println_def)

lemma calls_Nil [simp]: "calls [] = []"
  by (simp add: calls_def)

lemma calls_Cons [simp]: "calls (ev # evs) = (if is_call ev then ev # calls evs else calls evs)"
  by (simp add: calls_def)

lemma printed_Nil [simp]: "printed [] = []"
  by (simp add: printed_def)

lemma printed_Cons [simp]:
  "printed (ev # evs) = (if is_call ev then printed evs else stdout_of ev # printed evs)"
  by (simp add: printed_def)

lemma call_result:
  assumes "call ev f s = (r, s1)"
  shows "r = fst (f (world s))" and "world s1 = snd (f (world s))" and "trace s1 = trace s @ [ev]"
  using assms by (auto simp add: call_def split: prod.splits)

subsection \<open>Splitting strings\<close>

lemma SplitN_2: "SplitN s sep 2 =
    (if sep \<in> set s then [takeWhile (\<lambda>c. c \<noteq> sep) s, tl (dropWhile (\<lambda>c. c \<noteq> sep) s)] else [s])"
  by (simp add: numeral_2_eq_2)

lemma SplitN_3: "SplitN s sep 3 =
    (if sep \<in> set s
     then takeWhile (\<lambda>c. c \<noteq> sep) s # SplitN (tl (dropWhile (\<lambda>c. c \<noteq> sep) s)) sep 2
     else [s])"
  by (simp add: numeral_3_eq_3 numeral_2_eq_2)

subsection \<open>Maintainer validation\<close>

lemma validate_maintainers_loop_query:
  assumes "\<forall>a w. snd (Validate (accountValidator t) url a w) = w"
  shows "(fst (validate_maintainers_loop t url ms s) \<noteq> None) =
         (\<exists>m \<in> set ms. fst (Validate (accountValidator t) url (Name m) (world s)) \<noteq> None)"
proof (induction ms arbitrary: s)
  case Nil
  then show ?case by simp
next
  case (Cons m ms)
  obtain r s1 where c: "call (AccountValidatorValidate url (Name m))
      (Validate (accountValidator t) url (Name m)) s = (r, s1)"
    by (cases "call (AccountValidatorValidate url (Name m))
      (Validate (accountValidator t) url (Name m)) s")
  have r: "r = fst (Validate (accountValidator t) url (Name m) (world s))"
    using c by (metis fst_call fst_conv)
  have w: "world s1 = world s"
    using c assms by (metis world_call snd_conv)
  show ?case
  proof (cases r)
    case None
    then show ?thesis using c r w Cons.IH [of s1] by simp
  next
    case (Some e)
    then show ?thesis using c r by simp
  qed
qed

text \<open>
  C8. Let the manifest of the chart be read without error. A deprecated chart with a
  maintainer is refused, a deprecated chart without maintainers passes, and a chart
  that is not deprecated and has no maintainer is refused. For a chart that is not
  deprecated and has maintainers, an error is returned exactly when the URL of the
  remote cannot be obtained or the account validator refuses the name of one of the
  maintainers (account validation being a query, which leaves the world as it is).
\<close>

theorem ValidateMaintainers_cases:
  assumes y: "ReadChartYaml (chartUtils t) chart (world s) = ((y, None), w1)"
    and url: "GetUrlForRemote (git t) (Remote (config t)) w1 = ((repoUrl, uerr), w2)"
    and query: "\<forall>a w. snd (Validate (accountValidator t) repoUrl a w) = w"
  shows "(Deprecated y \<and> Maintainers y \<noteq> [] \<longrightarrow>
            fst (ValidateMaintainers t chart s) = Some (ErrorNew ''Deprecated chart must not have maintainers''))
       \<and> (Deprecated y \<and> Maintainers y = [] \<longrightarrow> fst (ValidateMaintainers t chart s) = None)
       \<and> (\<not> Deprecated y \<and> Maintainers y = [] \<longrightarrow>
            fst (ValidateMaintainers t chart s) = Some (ErrorNew ''Chart doesn't have maintainers''))
       \<and> (\<not> Deprecated y \<and> Maintainers y \<noteq> [] \<longrightarrow>
            (fst (ValidateMaintainers t chart s) \<noteq> None) =
            (uerr \<noteq> None \<or> (\<exists>m \<in> set (Maintainers y).
                fst (Validate (accountValidator t) repoUrl (Name m) w2) \<noteq> None)))"
proof -
  let ?s0 = "println ''Validating maintainers...'' s"
  obtain s1 where c1: "call (ChartUtilsReadChartYaml chart) (ReadChartYaml (chartUtils t) chart) ?s0
      = ((y, None), s1)" and w1: "world s1 = w1"
    using y by (simp add: call_def)
  obtain s2 where c2: "call (GitGetUrlForRemote (Remote (config t)))
      (GetUrlForRemote (git t) (Remote (config t))) s1 = ((repoUrl, uerr), s2)" and w2: "world s2 = w2"
    using url w1 by (simp add: call_def)
  show ?thesis
    using c1 c2 w2 validate_maintainers_loop_query [OF query, of "Maintainers y" s2]
    by (cases uerr) (simp_all add: ValidateMaintainers_def)
qed

theorem ValidateMaintainers_cases_witness:
  "fst (ValidateMaintainers double ''charts/retired'' start)
     = Some (ErrorNew ''Deprecated chart must not have maintainers'')
   \<and> fst (ValidateMaintainers double ''charts/gone'' start) = None
   \<and> fst (ValidateMaintainers double ''charts/orphan'' start)
     = Some (ErrorNew ''Chart doesn't have maintainers'')
   \<and> fst (ValidateMaintainers double ''charts/foo'' start) = None
   \<and> fst (ValidateMaintainers double ''charts/bad'' start) \<noteq> None"
proof -
  have y: "c \<noteq> ''charts/unreadable'' \<Longrightarrow>
      ReadChartYaml (chartUtils double) c (world start) = ((double_manifest c, None), ())" for c
    by (simp add: double_def)
  have url: "GetUrlForRemote (git double) (Remote (config double)) () = ((''github.com'', None), ())"
    by (simp add: double_def double_git_def)
  have query: "\<forall>a w. snd (Validate (accountValidator double) ''github.com'' a w) = w"
    by (simp add: double_def)
  note th = ValidateMaintainers_cases [OF y url query]
  show ?thesis
    using th [of "''charts/retired''"] th [of "''charts/gone''"] th [of "''charts/orphan''"]
      th [of "''charts/foo''"] th [of "''charts/bad''"]
    by (simp add: double_manifest_def double_def)
qed

subsection \<open>Version gate\<close>

lemma GetOldChartVersion_absent:
  assumes "FileExistsOnBranch (git t) (path_Join (stdlib t) [chart, ''Chart.yaml''])
             (Remote (config t)) (TargetBranch (config t)) (world s) = (False, w1)"
  shows "GetOldChartVersion t chart s = (('''', None),
           \<lparr>world = w1, trace = trace s @
             [GitFileExistsOnBranch (path_Join (stdlib t) [chart, ''Chart.yaml''])
                (Remote (config t)) (TargetBranch (config t)),
              Stdout (''Unable to find chart on '' @ TargetBranch (config t) @ ''. New chart detected.\<newline>'')]\<rparr>)"
  using assms by (simp add: GetOldChartVersion_def call_def Let_def print_def)

lemma GetOldChartVersion_present:
  assumes "FileExistsOnBranch (git t) (path_Join (stdlib t) [chart, ''Chart.yaml''])
             (Remote (config t)) (TargetBranch (config t)) (world s) = (True, w1)"
    and "Show (git t) (path_Join (stdlib t) [chart, ''Chart.yaml''])
             (Remote (config t)) (TargetBranch (config t)) w1 = ((contents, None), w2)"
    and "util_ReadChartYaml (util t) contents = (yo, None)"
  shows "fst (GetOldChartVersion t chart s) = (Version yo, None)"
    and "world (snd (GetOldChartVersion t chart s)) = w2"
  using assms by (simp_all add: GetOldChartVersion_def call_def Let_def)

text \<open>
  C5. Let the chart have a manifest on the target branch with a version that is not
  empty, let the manifest of the working copy be read without error, and let
  \<^verbatim>\<open>util.CompareVersions\<close> report the three-way comparison of the old version \<open>vo\<close>
  against the new version \<open>vn\<close> (negative when the old one is less), the two being
  ordered as semantic versions. Then \<^verbatim>\<open>CheckVersionIncrement\<close> returns the error
  "Chart version not ok. Needs a version bump!" whenever the new version is equal to or
  less than the old one, and no error when it is strictly greater.
\<close>

theorem CheckVersionIncrement_order:
  fixes vo vn :: "'v::linorder"
  assumes ex: "FileExistsOnBranch (git t) (path_Join (stdlib t) [chart, ''Chart.yaml''])
             (Remote (config t)) (TargetBranch (config t)) (world s) = (True, w1)"
    and sh: "Show (git t) (path_Join (stdlib t) [chart, ''Chart.yaml''])
             (Remote (config t)) (TargetBranch (config t)) w1 = ((contents, None), w2)"
    and old: "util_ReadChartYaml (util t) contents = (yo, None)"
    and nonempty: "Version yo \<noteq> ''''"
    and new: "ReadChartYaml (chartUtils t) chart w2 = ((yn, None), w3)"
    and cmp: "CompareVersions (util t) (Version yo) (Version yn) = (compare3 vo vn, None)"
  shows "(vn \<le> vo \<longrightarrow> fst (CheckVersionIncrement t chart s)
            = Some (ErrorNew ''Chart version not ok. Needs a version bump!''))
       \<and> (vo < vn \<longrightarrow> fst (CheckVersionIncrement t chart s) = None)"
proof -
  let ?s0 = "print (''Checking chart '' @ quoted chart @ '' for a version bump...\<newline>'') s"
  obtain s1 where o: "GetOldChartVersion t chart ?s0 = ((Version yo, None), s1)" and w: "world s1 = w2"
    using GetOldChartVersion_present [of t chart ?s0 w1 contents w2 yo] ex sh old
    by (cases "GetOldChartVersion t chart ?s0") simp
  obtain s2 where n: "GetNewChartVersion t chart (println (''Old chart version: '' @ Version yo) s1)
      = ((Version yn, None), s2)"
    using new w by (simp add: GetNewChartVersion_def call_def)
  show ?thesis
    using o n nonempty cmp
    by (auto simp add: CheckVersionIncrement_def Let_def compare3_def)
qed


theorem CheckVersionIncrement_order_witness:
  "fst (CheckVersionIncrement double ''charts/foo'' start) = None
   \<and> fst (CheckVersionIncrement double ''charts/bad'' start)
       = Some (ErrorNew ''Chart version not ok. Needs a version bump!'')
   \<and> fst (CheckVersionIncrement double ''charts/stale'' start)
       = Some (ErrorNew ''Chart version not ok. Needs a version bump!'')"
proof -
  have k12: "version_key ''1.2.0'' = (1, 2, 0)" by (simp add: version_key_def SplitN_3 SplitN_2)
  have k13: "version_key ''1.3.0'' = (1, 3, 0)" by (simp add: version_key_def SplitN_3 SplitN_2)
  have k11: "version_key ''1.1.9'' = (1, 1, 9)" by (simp add: version_key_def SplitN_3 SplitN_2)
  have ex: "c \<noteq> ''charts/new'' \<Longrightarrow> FileExistsOnBranch (git double) (path_Join (stdlib double) [c, ''Chart.yaml''])
             (Remote (config double)) (TargetBranch (config double)) (world start) = (True, ())" for c
    by (auto simp add: double_def double_git_def double_Join_def)
  have sh: "Show (git double) (path_Join (stdlib double) [c, ''Chart.yaml''])
             (Remote (config double)) (TargetBranch (config double)) () = ((''1.2.0'', None), ())" for c
    by (simp add: double_def double_git_def)
  have old: "util_ReadChartYaml (util double) ''1.2.0''
      = (\<lparr>Version = ''1.2.0'', Deprecated = False, Maintainers = []\<rparr>, None)"
    by (simp add: double_def)
  have new: "c \<noteq> ''charts/unreadable'' \<Longrightarrow>
      ReadChartYaml (chartUtils double) c () = ((double_manifest c, None), ())" for c
    by (simp add: double_def)
  have cmp: "CompareVersions (util double) ''1.2.0'' (Version (double_manifest c))
      = (compare3 (version_rank (version_key ''1.2.0'')) (version_rank (version_key (Version (double_manifest c)))), None)" for c
    by (simp add: double_def)
  note th = CheckVersionIncrement_order [OF ex sh old _ new, where vo = "version_rank (version_key ''1.2.0'')"]
  show ?thesis
    using th [of "''charts/foo''" "version_rank (version_key ''1.3.0'')"]
      th [of "''charts/bad''" "version_rank (version_key ''1.2.0'')"]
      th [of "''charts/stale''" "version_rank (version_key ''1.1.9'')"]
      cmp [of "''charts/foo''"] cmp [of "''charts/bad''"] cmp [of "''charts/stale''"]
    by (simp add: double_manifest_def k12 k13 k11 version_rank_def)
qed

text \<open>
  C6. For a chart whose \<^verbatim>\<open>Chart.yaml\<close> is not on the target branch,
  \<^verbatim>\<open>CheckVersionIncrement\<close> returns no error and \<^verbatim>\<open>checkBreakingChangeAllowed\<close>
  returns \<open>allowed = true\<close> with the error "chart has no previous revision".
  \<^verbatim>\<open>UpgradeChart\<close> prints that error and returns a result without error; the only
  collaborator it calls is the look-up of the file on the branch.
\<close>

theorem new_chart_passes_gate:
  assumes absent: "FileExistsOnBranch (git t) (path_Join (stdlib t) [chart, ''Chart.yaml''])
             (Remote (config t)) (TargetBranch (config t)) (world s) = (False, w1)"
  shows "fst (CheckVersionIncrement t chart s) = None
       \<and> fst (checkBreakingChangeAllowed t chart s) = (True, Some (ErrorNew ''chart has no previous revision''))
       \<and> fst (UpgradeChart t chart s) = \<lparr>Chart = chart, Error = None\<rparr>
       \<and> calls (trace (snd (UpgradeChart t chart s))) = calls (trace s) @
           [GitFileExistsOnBranch (path_Join (stdlib t) [chart, ''Chart.yaml''])
              (Remote (config t)) (TargetBranch (config t))]
       \<and> printed (trace (snd (UpgradeChart t chart s))) = printed (trace s) @
           [''Unable to find chart on '' @ TargetBranch (config t) @ ''. New chart detected.\<newline>'',
            ''Skipping upgrade test of '' @ quoted chart @ '' because: chart has no previous revision\<newline>'']"
proof -
  let ?s0 = "print (''Checking chart '' @ quoted chart @ '' for a version bump...\<newline>'') s"
  have a0: "FileExistsOnBranch (git t) (path_Join (stdlib t) [chart, ''Chart.yaml''])
             (Remote (config t)) (TargetBranch (config t)) (world ?s0) = (False, w1)"
    using absent by simp
  have 1: "fst (CheckVersionIncrement t chart s) = None"
    using GetOldChartVersion_absent [OF a0] by (simp add: CheckVersionIncrement_def)
  have 2: "checkBreakingChangeAllowed t chart s = ((True, Some (ErrorNew ''chart has no previous revision'')),
      snd (GetOldChartVersion t chart s))"
    by (simp add: checkBreakingChangeAllowed_def GetOldChartVersion_absent [OF absent])
  show ?thesis
    using 1 2 by (simp add: UpgradeChart_def Let_def GetOldChartVersion_absent [OF absent])
qed


theorem new_chart_passes_gate_witness:
  "fst (CheckVersionIncrement double ''charts/new'' start) = None
   \<and> fst (checkBreakingChangeAllowed double ''charts/new'' start)
       = (True, Some (ErrorNew ''chart has no previous revision''))
   \<and> fst (UpgradeChart double ''charts/new'' start) = \<lparr>Chart = ''charts/new'', Error = None\<rparr>
   \<and> calls (trace (snd (UpgradeChart double ''charts/new'' start)))
       = [GitFileExistsOnBranch ''charts/new/Chart.yaml'' ''origin'' ''master'']"
proof -
  have absent: "FileExistsOnBranch (git double) (path_Join (stdlib double) [''charts/new'', ''Chart.yaml''])
             (Remote (config double)) (TargetBranch (config double)) (world start) = (False, ())"
    by (simp add: double_def double_git_def double_Join_def)
  show ?thesis
    using new_chart_passes_gate [OF absent]
    by (simp add: double_def double_config_def double_Join_def start_def calls_def)
qed







subsection \<open>What a run appends to the trace\<close>

lemma appends_refl [simp]: "appends P s s"
  by (simp add: appends_def)

lemma appends_trans:
  assumes "appends P s s1" and "appends P s1 s2"
  shows "appends P s s2"
proof -
  obtain e1 where 1: "trace s1 = trace s @ e1" "list_all P e1"
    using assms(1) unfolding appends_def by blast
  obtain e2 where 2: "trace s2 = trace s1 @ e2" "list_all P e2"
    using assms(2) unfolding appends_def by blast
  have "trace s2 = trace s @ (e1 @ e2)" using 1 2 by simp
  moreover have "list_all P (e1 @ e2)" using 1 2 by simp
  ultimately show ?thesis unfolding appends_def by blast
qed

lemma appends_event:
  assumes "appends P s s1" and "trace s2 = trace s1 @ [ev]" and "P ev"
  shows "appends P s s2"
proof -
  have "appends P s1 s2" using assms(2,3) unfolding appends_def by simp
  with assms(1) show ?thesis by (rule appends_trans)
qed

lemma appends_call: "P ev \<Longrightarrow> appends P s s1 \<Longrightarrow> appends P s (snd (call ev f s1))"
  by (rule appends_event [where ?s1.0 = s1 and ev = ev]) simp_all

lemma appends_call_eq: "P ev \<Longrightarrow> appends P s s1 \<Longrightarrow> call ev f s1 = (r, s2) \<Longrightarrow> appends P s s2"
  using appends_call [of P ev s s1 f] by simp

lemma appends_print: "P (Stdout x) \<Longrightarrow> appends P s s1 \<Longrightarrow> appends P s (print x s1)"
  by (rule appends_event [where ?s1.0 = s1 and ev = "Stdout x"]) simp_all

lemma appends_println:
  "P (Stdout (x @ ''\<newline>'')) \<Longrightarrow> appends P s s1 \<Longrightarrow> appends P s (println x s1)"
  unfolding println_def by (rule appends_print)

lemma appends_PrintDelimiterLine:
  "P (Stdout (DelimiterLine (util t) c)) \<Longrightarrow> appends P s s1 \<Longrightarrow> appends P s (PrintDelimiterLine t c s1)"
  unfolding PrintDelimiterLine_def by (rule appends_print)

lemma printDetails_appends:
  assumes pf: "\<And>item s1. appends is_cleanup s0 s1 \<Longrightarrow> appends is_cleanup s0 (snd (printFunc item s1))"
  shows "appends is_cleanup s0 s \<Longrightarrow> appends is_cleanup s0 (printDetails t pod txt c printFunc items s)"
proof (induction items arbitrary: s)
  case Nil
  then show ?case by simp
next
  case (Cons item items)
  define s3 where "s3 = PrintDelimiterLine t c
      (print (''==> '' @ txt @ '' '' @ pod @ ''\<newline>'') (PrintDelimiterLine t c s))"
  have a3: "appends is_cleanup s0 s3"
    unfolding s3_def using Cons.prems
    by (intro appends_PrintDelimiterLine appends_print) simp_all
  obtain r s4 where p: "printFunc (Trim_quote item) s3 = (r, s4)"
    by (cases "printFunc (Trim_quote item) s3")
  have a4: "appends is_cleanup s0 s4"
    using pf [OF a3, of "Trim_quote item"] p by simp
  have step: "printDetails t pod txt c printFunc (item # items) s =
      (case r of
         Some err \<Rightarrow> println (''Error printing details: '' @ Error_msg err) s4
       | None \<Rightarrow> printDetails t pod txt c printFunc items
           (PrintDelimiterLine t c (print (''<== '' @ txt @ '' '' @ pod @ ''\<newline>'')
              (PrintDelimiterLine t c s4))))"
    unfolding printDetails.simps Let_def s3_def [symmetric] p prod.case ..
  show ?case
  proof (cases r)
    case (Some err)
    then show ?thesis
      unfolding step using a4 by (simp add: appends_println)
  next
    case None
    have "appends is_cleanup s0 (PrintDelimiterLine t c (print (''<== '' @ txt @ '' '' @ pod @ ''\<newline>'')
              (PrintDelimiterLine t c s4)))"
      using a4 by (intro appends_PrintDelimiterLine appends_print) simp_all
    from Cons.IH [OF this] show ?thesis
      unfolding step using None by simp
  qed
qed

lemma pods_loop_appends:
  "appends is_cleanup s0 s \<Longrightarrow> appends is_cleanup s0 (snd (pods_loop t namespace pods s))"
proof (induction pods arbitrary: s)
  case Nil
  then show ?case by simp
next
  case (Cons pod pods)
  define s1 where "s1 = printDetails t pod ''Description of pod'' ''~''
      (\<lambda>item. call (KubectlDescribePod namespace pod) (DescribePod (kubectl t) namespace pod)) [pod] s"
  have a1: "appends is_cleanup s0 s1"
    unfolding s1_def using Cons.prems
    by (intro printDetails_appends appends_call) simp_all
  obtain ics ie s2 where g: "call (KubectlGetInitContainers namespace pod)
      (GetInitContainers (kubectl t) namespace pod) s1 = ((ics, ie), s2)"
    by (metis surj_pair)
  have a2: "appends is_cleanup s0 s2"
    using appends_call_eq [OF _ a1 g] by simp
  define s3 where "s3 = printDetails t pod ''Logs of init container'' ''-''
      (\<lambda>item. call (KubectlLogs namespace pod item) (Logs (kubectl t) namespace pod item)) ics s2"
  have a3: "appends is_cleanup s0 s3"
    unfolding s3_def using a2
    by (intro printDetails_appends appends_call) simp_all
  obtain cs ce s4 where h: "call (KubectlGetContainers namespace pod)
      (GetContainers (kubectl t) namespace pod) s3 = ((cs, ce), s4)"
    by (metis surj_pair)
  have a4: "appends is_cleanup s0 s4"
    using appends_call_eq [OF _ a3 h] by simp
  define s5 where "s5 = printDetails t pod ''Logs of container'' ''-''
      (\<lambda>item. call (KubectlLogs namespace pod item) (Logs (kubectl t) namespace pod item)) cs s4"
  have a5: "appends is_cleanup s0 s5"
    unfolding s5_def using a4
    by (intro printDetails_appends appends_call) simp_all
  have step: "pods_loop t namespace (pod # pods) s =
      (case ie of
         Some err \<Rightarrow> (False, println (''Error printing logs: '' @ Error_msg err) s2)
       | None \<Rightarrow>
           (case ce of
              Some err \<Rightarrow> (False, println (''Error printing logs: '' @ Error_msg err) s4)
            | None \<Rightarrow> pods_loop t namespace pods s5))"
    unfolding pods_loop.simps Let_def s1_def [symmetric] g prod.case
    by (cases ie; cases ce; simp only: option.case s3_def [symmetric] s5_def [symmetric] h prod.case)
  show ?case
  proof (cases ie)
    case (Some err)
    then show ?thesis
      unfolding step using a2 by (simp add: appends_println)
  next
    case None
    show ?thesis
    proof (cases ce)
      case (Some err)
      then show ?thesis
        unfolding step using None a4 by (simp add: appends_println)
    next
      case None2: None
      show ?thesis
        unfolding step using None None2 Cons.IH [OF a5] by simp
    qed
  qed
qed

lemma PrintPodDetailsAndLogs_appends:
  assumes "appends is_cleanup s0 s"
  shows "appends is_cleanup s0 (PrintPodDetailsAndLogs t namespace selector s)"
proof -
  define args where "args = [''--no-headers'', ''--namespace'', namespace, ''--selector'', selector,
                  ''--output'', ''jsonpath={.items[*].metadata.name}'']"
  obtain pods pe s1 where g: "call (KubectlGetPods args) (GetPods (kubectl t) args) s = ((pods, pe), s1)"
    by (metis surj_pair)
  have a1: "appends is_cleanup s0 s1"
    using appends_call_eq [OF _ assms g] by simp
  obtain b s2 where l: "pods_loop t namespace pods (PrintDelimiterLine t ''='' s1) = (b, s2)"
    by (metis surj_pair)
  have a2: "appends is_cleanup s0 s2"
    using pods_loop_appends [OF appends_PrintDelimiterLine [OF _ a1], of t "''=''" t namespace pods] l
    by simp
  have step: "PrintPodDetailsAndLogs t namespace selector s =
      (case pe of
         Some err \<Rightarrow> println (''Error printing logs: '' @ Error_msg err) s1
       | None \<Rightarrow> (if b then PrintDelimiterLine t ''='' s2 else s2))"
    unfolding PrintPodDetailsAndLogs_def Let_def args_def [symmetric] g prod.case
    by (cases pe; cases b; simp only: option.case l prod.case bool.case if_True if_False)
  show ?thesis
    unfolding step using a1 a2
    by (cases pe; cases b) (simp_all add: appends_println appends_PrintDelimiterLine)
qed

lemma cleanup_appends:
  assumes cfg: "generateInstallConfig t chart = (namespace, release, releaseSelector, cleanup)"
    and s: "appends is_cleanup s0 s"
  shows "appends is_cleanup s0 (cleanup s)"
proof -
  define s1 where "s1 = PrintPodDetailsAndLogs t namespace releaseSelector s"
  define s2 where "s2 = snd (call (HelmDeleteRelease release) (DeleteRelease (helm t) release) s1)"
  define s3 where "s3 = snd (call (KubectlDeleteNamespace namespace) (DeleteNamespace (kubectl t) namespace) s2)"
  have a1: "appends is_cleanup s0 s1"
    unfolding s1_def by (rule PrintPodDetailsAndLogs_appends [OF s])
  have a2: "appends is_cleanup s0 s2"
    unfolding s2_def using a1 by (intro appends_call) simp_all
  have a3: "appends is_cleanup s0 s3"
    unfolding s3_def using a2 by (intro appends_call) simp_all
  have "cleanup s = s2 \<or> cleanup s = s3"
    using cfg unfolding s1_def s2_def s3_def
    by (auto simp add: generateInstallConfig_def Let_def split: if_splits)
  then show ?thesis
    using a2 a3 by auto
qed

subsection \<open>Upgrade pipeline\<close>

lemma appends_mono:
  assumes "appends P s s'" and "\<And>ev. P ev \<Longrightarrow> Q ev"
  shows "appends Q s s'"
proof -
  obtain evs where e: "trace s' = trace s @ evs" "list_all P evs"
    using assms(1) unfolding appends_def by blast
  have "list_all Q evs"
    using e(2) assms(2) by (simp add: list_all_iff)
  with e(1) show ?thesis unfolding appends_def by blast
qed

lemma is_cleanup_not_new: "is_cleanup ev \<Longrightarrow> \<not> exercises_new ev"
  by (cases ev) simp_all

lemma cleanup_appends_not_new:
  assumes cfg: "generateInstallConfig t chart = (namespace, release, releaseSelector, cleanup)"
    and s: "appends (\<lambda>ev. \<not> exercises_new ev) s0 s"
  shows "appends (\<lambda>ev. \<not> exercises_new ev) s0 (cleanup s)"
proof -
  have "appends is_cleanup s (cleanup s)"
    by (rule cleanup_appends [OF cfg]) simp
  then have "appends (\<lambda>ev. \<not> exercises_new ev) s (cleanup s)"
    by (rule appends_mono) (rule is_cleanup_not_new)
  with s show ?thesis by (rule appends_trans)
qed

lemma testRelease_old_appends:
  assumes "appends (\<lambda>ev. \<not> exercises_new ev) s0 s"
  shows "appends (\<lambda>ev. \<not> exercises_new ev) s0 (snd (testRelease t release namespace releaseSelector True s))"
proof -
  obtain we s1 where w: "call (KubectlWaitForDeployments namespace releaseSelector)
      (WaitForDeployments (kubectl t) namespace releaseSelector) s = (we, s1)"
    by (metis surj_pair)
  have a1: "appends (\<lambda>ev. \<not> exercises_new ev) s0 s1"
    using appends_call_eq [OF _ assms w] by simp
  obtain te s2 where h: "call (HelmTest release True) (Test (helm t) release True) s1 = (te, s2)"
    by (metis surj_pair)
  have a2: "appends (\<lambda>ev. \<not> exercises_new ev) s0 s2"
    using appends_call_eq [OF _ a1 h] by simp
  show ?thesis
    using w h a1 a2 by (cases we; cases te) (simp_all add: testRelease_def)
qed

lemma doUpgrade_body_cases:
  assumes install: "call (HelmInstallWithValues oldChart valuesFile namespace release)
        (InstallWithValues (helm t) oldChart valuesFile namespace release) s = (ie, s1)"
    and testOld: "testRelease t release namespace releaseSelector True s1 = (te, s2)"
    and upgrade: "call (HelmUpgrade oldChart release) (Upgrade (helm t) oldChart release) s2 = (ue, s3)"
    and testNew: "testRelease t release namespace releaseSelector False s3 = (ne, s4)"
  shows "ie = Some e \<Longrightarrow> fst (doUpgrade_body t oldChart valuesFile True namespace release releaseSelector s) = Some e"
    and "ie = Some e \<Longrightarrow> fst (doUpgrade_body t oldChart valuesFile False namespace release releaseSelector s) = None"
    and "ie = None \<Longrightarrow> te = Some e \<Longrightarrow>
          fst (doUpgrade_body t oldChart valuesFile True namespace release releaseSelector s) = Some e"
    and "ie = None \<Longrightarrow> te = Some e \<Longrightarrow>
          fst (doUpgrade_body t oldChart valuesFile False namespace release releaseSelector s) = None"
    and "ie = None \<Longrightarrow> te = None \<Longrightarrow> ue = Some e \<Longrightarrow>
          fst (doUpgrade_body t oldChart valuesFile must namespace release releaseSelector s) = Some e"
    and "ie = None \<Longrightarrow> te = None \<Longrightarrow> ue = None \<Longrightarrow>
          fst (doUpgrade_body t oldChart valuesFile must namespace release releaseSelector s) = ne"
  using assms by (simp_all add: doUpgrade_body_def)

lemma doUpgrade_body_skip_appends:
  assumes install: "call (HelmInstallWithValues oldChart valuesFile namespace release)
        (InstallWithValues (helm t) oldChart valuesFile namespace release) s = (ie, s1)"
    and testOld: "testRelease t release namespace releaseSelector True s1 = (te, s2)"
    and fails: "ie \<noteq> None \<or> te \<noteq> None"
  shows "appends (\<lambda>ev. \<not> exercises_new ev) s
           (snd (doUpgrade_body t oldChart valuesFile False namespace release releaseSelector s))"
proof -
  have a1: "appends (\<lambda>ev. \<not> exercises_new ev) s s1"
    using appends_call_eq [OF _ appends_refl install] by simp
  have a2: "appends (\<lambda>ev. \<not> exercises_new ev) s s2"
    using testRelease_old_appends [OF a1, of t release namespace releaseSelector] testOld by simp
  show ?thesis
  proof (cases ie)
    case (Some e)
    then show ?thesis
      using install a1 by (simp add: doUpgrade_body_def appends_println)
  next
    case None
    then obtain e where "te = Some e" using fails by auto
    then show ?thesis
      using None install testOld a2 by (simp add: doUpgrade_body_def appends_println)
  qed
qed

lemma doUpgrade_fun_eq:
  assumes "generateInstallConfig t oldChart = (namespace, release, releaseSelector, cleanup)"
  shows "doUpgrade_fun t oldChart valuesFile must s =
     (fst (doUpgrade_body t oldChart valuesFile must namespace release releaseSelector s),
      cleanup (snd (doUpgrade_body t oldChart valuesFile must namespace release releaseSelector s)))"
  using assms by (simp add: doUpgrade_fun_def split: prod.splits)

lemma doUpgrade_default:
  assumes "FindValuesFilesForCI t oldChart
      (print (''Testing upgrades of chart '' @ quoted newChart
                      @ '' relative to previous revision '' @ quoted oldChart @ ''...\<newline>'') s) = []"
  shows "doUpgrade t oldChart newChart must s = doUpgrade_loop t oldChart must ['''']
      (print (''Testing upgrades of chart '' @ quoted newChart
                      @ '' relative to previous revision '' @ quoted oldChart @ ''...\<newline>'') s)"
  using assms by (simp add: doUpgrade_def Let_def)

text \<open>
  C3. One run of the anonymous function of \<^verbatim>\<open>doUpgrade\<close>, for the values file at the
  head of the loop, with the results of its four stages named: installing the old
  revision (\<open>ie\<close>), testing it (\<open>te\<close>), the upgrade (\<open>ue\<close>) and the test of the new
  revision (\<open>ne\<close>). If installing or testing the old revision fails, then with
  \<^verbatim>\<open>oldChartMustPass = false\<close> the function returns no error, nothing that exercises
  the new revision (\<^verbatim>\<open>helm upgrade\<close>, the final \<^verbatim>\<open>helm test\<close>) happens in it, and the
  loop goes on with the remaining values files; with \<^verbatim>\<open>oldChartMustPass = true\<close> the
  loop, and so \<^verbatim>\<open>doUpgrade\<close>, returns that error. If the old revision passes and the
  upgrade or the test of the new revision fails, that error is returned whatever
  \<^verbatim>\<open>oldChartMustPass\<close> is.
\<close>

theorem doUpgrade_tolerance:
  assumes cfg: "generateInstallConfig t oldChart = (namespace, release, releaseSelector, cleanup)"
    and s: "s = (if valuesFile \<noteq> ''''
                 then print (''\<newline>Installing chart '' @ quoted oldChart @ '' with values file ''
                             @ quoted valuesFile @ ''...\<newline>\<newline>'') s0
                 else s0)"
    and install: "call (HelmInstallWithValues oldChart valuesFile namespace release)
        (InstallWithValues (helm t) oldChart valuesFile namespace release) s = (ie, s1)"
    and testOld: "testRelease t release namespace releaseSelector True s1 = (te, s2)"
    and upgrade: "call (HelmUpgrade oldChart release) (Upgrade (helm t) oldChart release) s2 = (ue, s3)"
    and testNew: "testRelease t release namespace releaseSelector False s3 = (ne, s4)"
  shows "(ie = Some e \<or> (ie = None \<and> te = Some e) \<longrightarrow>
            fst (doUpgrade_fun t oldChart valuesFile False s) = None
          \<and> appends (\<lambda>ev. \<not> exercises_new ev) s (snd (doUpgrade_fun t oldChart valuesFile False s))
          \<and> doUpgrade_loop t oldChart False (valuesFile # rest) s0
              = doUpgrade_loop t oldChart False rest (snd (doUpgrade_fun t oldChart valuesFile False s))
          \<and> fst (doUpgrade_loop t oldChart True (valuesFile # rest) s0) = Some e)
       \<and> (ie = None \<and> te = None \<and> (ue = Some e \<or> (ue = None \<and> ne = Some e)) \<longrightarrow>
            fst (doUpgrade_loop t oldChart must (valuesFile # rest) s0) = Some e)"
proof (intro conjI impI)
  assume old: "ie = Some e \<or> (ie = None \<and> te = Some e)"
  note b = doUpgrade_body_cases [OF install testOld upgrade testNew]
  have f: "fst (doUpgrade_body t oldChart valuesFile False namespace release releaseSelector s) = None"
    using old b(2) b(4) by blast
  have tr: "fst (doUpgrade_body t oldChart valuesFile True namespace release releaseSelector s) = Some e"
    using old b(1) b(3) by blast
  show r: "fst (doUpgrade_fun t oldChart valuesFile False s) = None"
    using f by (simp add: doUpgrade_fun_eq [OF cfg])
  have "ie \<noteq> None \<or> te \<noteq> None" using old by auto
  from doUpgrade_body_skip_appends [OF install testOld this]
  have "appends (\<lambda>ev. \<not> exercises_new ev) s
      (cleanup (snd (doUpgrade_body t oldChart valuesFile False namespace release releaseSelector s)))"
    by (rule cleanup_appends_not_new [OF cfg])
  then show "appends (\<lambda>ev. \<not> exercises_new ev) s (snd (doUpgrade_fun t oldChart valuesFile False s))"
    by (simp add: doUpgrade_fun_eq [OF cfg])
  show "doUpgrade_loop t oldChart False (valuesFile # rest) s0
      = doUpgrade_loop t oldChart False rest (snd (doUpgrade_fun t oldChart valuesFile False s))"
    using r unfolding doUpgrade_loop.simps Let_def s [symmetric]
    by (cases "doUpgrade_fun t oldChart valuesFile False s") simp
  have "fst (doUpgrade_fun t oldChart valuesFile True s) = Some e"
    using tr by (simp add: doUpgrade_fun_eq [OF cfg])
  then show "fst (doUpgrade_loop t oldChart True (valuesFile # rest) s0) = Some e"
    unfolding doUpgrade_loop.simps Let_def s [symmetric]
    by (cases "doUpgrade_fun t oldChart valuesFile True s") simp
next
  assume new: "ie = None \<and> te = None \<and> (ue = Some e \<or> (ue = None \<and> ne = Some e))"
  note b = doUpgrade_body_cases [OF install testOld upgrade testNew]
  have "fst (doUpgrade_body t oldChart valuesFile must namespace release releaseSelector s) = Some e"
    using new b(5) [of e must] b(6) [of must] by auto
  then have "fst (doUpgrade_fun t oldChart valuesFile must s) = Some e"
    by (simp add: doUpgrade_fun_eq [OF cfg])
  then show "fst (doUpgrade_loop t oldChart must (valuesFile # rest) s0) = Some e"
    unfolding doUpgrade_loop.simps Let_def s [symmetric]
    by (cases "doUpgrade_fun t oldChart valuesFile must s") simp
qed

theorem doUpgrade_tolerance_witness:
  "fst (doUpgrade double_broken_old ''ct_previous_revision/charts/foo'' ''charts/foo'' False start) = None
   \<and> fst (doUpgrade double_broken_old ''ct_previous_revision/charts/foo'' ''charts/foo'' True start)
       = Some (ErrorNew ''install failed'')
   \<and> fst (doUpgrade double_broken_upgrade ''ct_previous_revision/charts/foo'' ''charts/foo'' False start)
       = Some (ErrorNew ''upgrade failed'')
   \<and> fst (doUpgrade double_broken_upgrade ''charts/foo'' ''charts/foo'' True start)
       = Some (ErrorNew ''upgrade failed'')"
proof -
  define s0 :: "unit st" where "s0 = print (''Testing upgrades of chart '' @ quoted ''charts/foo''
        @ '' relative to previous revision '' @ quoted ''ct_previous_revision/charts/foo'' @ ''...\<newline>'') start"
  define s0' :: "unit st" where "s0' = print (''Testing upgrades of chart '' @ quoted ''charts/foo''
        @ '' relative to previous revision '' @ quoted ''charts/foo'' @ ''...\<newline>'') start"
  have glob: "FindValuesFilesForCI double_broken_old c s = []"
    "FindValuesFilesForCI double_broken_upgrade c s = []" for c s
    by (simp_all add: FindValuesFilesForCI_def double_broken_old_def double_broken_upgrade_def double_def)
  have d1: "doUpgrade double_broken_old ''ct_previous_revision/charts/foo'' ''charts/foo'' must start
      = doUpgrade_loop double_broken_old ''ct_previous_revision/charts/foo'' must [''''] s0" for must
    unfolding s0_def by (rule doUpgrade_default) (rule glob)
  have d2: "doUpgrade double_broken_upgrade ''ct_previous_revision/charts/foo'' ''charts/foo'' must start
      = doUpgrade_loop double_broken_upgrade ''ct_previous_revision/charts/foo'' must [''''] s0" for must
    unfolding s0_def by (rule doUpgrade_default) (rule glob)
  have d3: "doUpgrade double_broken_upgrade ''charts/foo'' ''charts/foo'' must start
      = doUpgrade_loop double_broken_upgrade ''charts/foo'' must [''''] s0'" for must
    unfolding s0'_def by (rule doUpgrade_default) (rule glob)
  have sel: "s = (if '''' \<noteq> '''' then print x s else s)" for s :: "unit st" and x
    by simp
  have old_fails: "\<exists>s1. call (HelmInstallWithValues ''ct_previous_revision/charts/foo'' '''' namespace release)
        (InstallWithValues (helm double_broken_old) ''ct_previous_revision/charts/foo'' '''' namespace release) s
        = (Some (ErrorNew ''install failed''), s1)" for namespace release and s :: "unit st"
    by (simp add: call_def double_broken_old_def double_def double_helm_def)
  have steps_ok: "\<exists>s1 s2 s3 s4.
        call (HelmInstallWithValues c '''' namespace release)
          (InstallWithValues (helm double_broken_upgrade) c '''' namespace release) s = (None, s1)
      \<and> testRelease double_broken_upgrade release namespace releaseSelector True s1 = (None, s2)
      \<and> call (HelmUpgrade c release) (Upgrade (helm double_broken_upgrade) c release) s2
          = (Some (ErrorNew ''upgrade failed''), s3)
      \<and> testRelease double_broken_upgrade release namespace releaseSelector False s3 = (None, s4)"
    for c namespace release releaseSelector and s :: "unit st"
    by (simp add: call_def testRelease_def double_broken_upgrade_def double_def double_helm_def
        double_kubectl_def)
  show ?thesis
  proof (intro conjI)
    obtain namespace release releaseSelector cleanup where
      cfg: "generateInstallConfig double_broken_old ''ct_previous_revision/charts/foo''
        = (namespace, release, releaseSelector, cleanup)"
      by (metis surj_pair)
    obtain s1 where i: "call (HelmInstallWithValues ''ct_previous_revision/charts/foo'' '''' namespace release)
        (InstallWithValues (helm double_broken_old) ''ct_previous_revision/charts/foo'' '''' namespace release) s0
        = (Some (ErrorNew ''install failed''), s1)"
      using old_fails by blast
    obtain te s2 where t1: "testRelease double_broken_old release namespace releaseSelector True s1 = (te, s2)"
      by (metis surj_pair)
    obtain ue s3 where u: "call (HelmUpgrade ''ct_previous_revision/charts/foo'' release)
        (Upgrade (helm double_broken_old) ''ct_previous_revision/charts/foo'' release) s2 = (ue, s3)"
      by (metis surj_pair)
    obtain ne s4 where t2: "testRelease double_broken_old release namespace releaseSelector False s3 = (ne, s4)"
      by (metis surj_pair)
    note th = doUpgrade_tolerance [OF cfg sel i t1 u t2, where e = "ErrorNew ''install failed''" and rest = "[]"]
    show "fst (doUpgrade double_broken_old ''ct_previous_revision/charts/foo'' ''charts/foo'' False start) = None"
      using th by (simp add: d1)
    show "fst (doUpgrade double_broken_old ''ct_previous_revision/charts/foo'' ''charts/foo'' True start)
       = Some (ErrorNew ''install failed'')"
      using th by (simp add: d1)
  next
    obtain namespace release releaseSelector cleanup where
      cfg: "generateInstallConfig double_broken_upgrade ''ct_previous_revision/charts/foo''
        = (namespace, release, releaseSelector, cleanup)"
      by (metis surj_pair)
    obtain s1 s2 s3 s4 where
      i: "call (HelmInstallWithValues ''ct_previous_revision/charts/foo'' '''' namespace release)
          (InstallWithValues (helm double_broken_upgrade) ''ct_previous_revision/charts/foo'' '''' namespace release) s0
          = (None, s1)"
      and t1: "testRelease double_broken_upgrade release namespace releaseSelector True s1 = (None, s2)"
      and u: "call (HelmUpgrade ''ct_previous_revision/charts/foo'' release)
          (Upgrade (helm double_broken_upgrade) ''ct_previous_revision/charts/foo'' release) s2
          = (Some (ErrorNew ''upgrade failed''), s3)"
      and t2: "testRelease double_broken_upgrade release namespace releaseSelector False s3 = (None, s4)"
      using steps_ok by blast
    show "fst (doUpgrade double_broken_upgrade ''ct_previous_revision/charts/foo'' ''charts/foo'' False start)
       = Some (ErrorNew ''upgrade failed'')"
      using doUpgrade_tolerance [OF cfg sel i t1 u t2, where e = "ErrorNew ''upgrade failed''" and must = False and rest = "[]"]
      by (simp add: d2)
  next
    obtain namespace release releaseSelector cleanup where
      cfg: "generateInstallConfig double_broken_upgrade ''charts/foo''
        = (namespace, release, releaseSelector, cleanup)"
      by (metis surj_pair)
    obtain s1 s2 s3 s4 where
      i: "call (HelmInstallWithValues ''charts/foo'' '''' namespace release)
          (InstallWithValues (helm double_broken_upgrade) ''charts/foo'' '''' namespace release) s0'
          = (None, s1)"
      and t1: "testRelease double_broken_upgrade release namespace releaseSelector True s1 = (None, s2)"
      and u: "call (HelmUpgrade ''charts/foo'' release)
          (Upgrade (helm double_broken_upgrade) ''charts/foo'' release) s2
          = (Some (ErrorNew ''upgrade failed''), s3)"
      and t2: "testRelease double_broken_upgrade release namespace releaseSelector False s3 = (None, s4)"
      using steps_ok by blast
    show "fst (doUpgrade double_broken_upgrade ''charts/foo'' ''charts/foo'' True start)
       = Some (ErrorNew ''upgrade failed'')"
      using doUpgrade_tolerance [OF cfg sel i t1 u t2, where e = "ErrorNew ''upgrade failed''" and must = True and rest = "[]"]
      by (simp add: d3)
  qed
qed

subsection \<open>Change detection\<close>

lemma set_first_seen [simp]: "set (first_seen xs) = set xs"
  by (induction xs rule: first_seen.induct) auto

lemma distinct_first_seen [simp]: "distinct (first_seen xs)"
  by (induction xs rule: first_seen.induct) auto

lemma first_seen_distinct: "distinct xs \<Longrightarrow> first_seen xs = xs"
proof (induction xs)
  case Nil
  then show ?case by simp
next
  case (Cons x xs)
  then have "filter (\<lambda>y. y \<noteq> x) xs = xs" by (auto simp add: filter_id_conv)
  then show ?case using Cons by simp
qed

lemma resolved_chart_roots_Cons:
  "resolved_chart_roots t w (f # fs) =
     (if considered t f \<and> snd (chart_root_of t w f) = None then fst (chart_root_of t w f) # resolved_chart_roots t w fs
      else resolved_chart_roots t w fs)"
  by (simp add: resolved_chart_roots_def)

lemma orphaned_files_Cons:
  "orphaned_files t w (f # fs) =
     (if considered t f \<and> snd (chart_root_of t w f) \<noteq> None then f # orphaned_files t w fs
      else orphaned_files t w fs)"
  by (simp add: orphaned_files_def)

lemma changed_loop_first_seen:
  assumes query: "\<forall>dirs d w. snd (LookupChartDir (chartUtils t) dirs d w) = w"
  shows "fst (changed_loop t files acc s)
           = acc @ first_seen (filter (\<lambda>d. d \<notin> set acc) (resolved_chart_roots t (world s) files))
       \<and> printed (trace (snd (changed_loop t files acc s)))
           = printed (trace s) @ map (\<lambda>file. ''Directory '' @ quoted (fst (chart_root_of t (world s) file))
                @ '' is no chart directory. Skipping...'') (orphaned_files t (world s) files)"
proof (induction files arbitrary: acc s)
  case Nil
  then show ?case by (simp add: resolved_chart_roots_def orphaned_files_def)
next
  case (Cons f fs)
  show ?case
  proof (cases "considered t f")
    case False
    then have "changed_loop t (f # fs) acc s = changed_loop t fs acc s"
      by (auto simp add: considered_def Let_def StringSliceContains_def)
    then show ?thesis
      using False Cons.IH [of acc s] by (simp add: resolved_chart_roots_Cons orphaned_files_Cons)
  next
    case True
    define dir where "dir = filepath_Dir (stdlib t) f"
    obtain chartDir err s1 where l: "call (ChartUtilsLookupChartDir (ChartDirs (config t)) dir)
        (LookupChartDir (chartUtils t) (ChartDirs (config t)) dir) s = ((chartDir, err), s1)"
      by (metis surj_pair)
    have lk: "chart_root_of t (world s) f = (chartDir, err)"
      using call_result(1) [OF l] unfolding chart_root_of_def dir_def [symmetric] by simp
    have w1: "world s1 = world s"
      using call_result(2) [OF l] query by simp
    have p1: "printed (trace s1) = printed (trace s)"
      using call_result(3) [OF l] by simp
    have c1: "\<not> length (SplitN (filepath_ToSlash (stdlib t) f) (CHR ''/'') 3) < 2"
      and c2: "\<not> StringSliceContains (ExcludedCharts (config t))
                 (SplitN (filepath_ToSlash (stdlib t) f) (CHR ''/'') 3 ! 1)"
      using True by (simp_all add: considered_def Let_def StringSliceContains_def)
    have step: "changed_loop t (f # fs) acc s =
        (case err of
           None \<Rightarrow> if chartDir \<notin> set acc then changed_loop t fs (acc @ [chartDir]) s1
                   else changed_loop t fs acc s1
         | Some e \<Rightarrow> changed_loop t fs acc
             (print (''Directory '' @ quoted chartDir @ '' is no chart directory. Skipping...'') s1))"
      using c1 c2 l unfolding dir_def
      by (cases err) (simp_all add: Let_def StringSliceContains_def)
    show ?thesis
    proof (cases err)
      case (Some e)
      let ?s2 = "print (''Directory '' @ quoted chartDir @ '' is no chart directory. Skipping...'') s1"
      have "world ?s2 = world s" using w1 by simp
      then show ?thesis
        unfolding step using Some True lk p1 Cons.IH [of acc ?s2]
        by (simp add: resolved_chart_roots_Cons orphaned_files_Cons)
    next
      case None
      have flt: "filter (\<lambda>d. d \<notin> set (acc @ [chartDir])) xs
          = filter (\<lambda>y. y \<noteq> chartDir) (filter (\<lambda>d. d \<notin> set acc) xs)" for xs
        by (induction xs) auto
      have flt2: "filter (\<lambda>d. d \<noteq> chartDir \<and> d \<notin> set acc) xs
          = filter (\<lambda>x. x \<notin> set acc \<and> x \<noteq> chartDir) xs" for xs
        by (rule filter_cong) auto
      show ?thesis
      proof (cases "chartDir \<in> set acc")
        case True2: True
        show ?thesis
          unfolding step using None True True2 lk p1 w1 Cons.IH [of acc s1]
          by (simp add: resolved_chart_roots_Cons orphaned_files_Cons)
      next
        case False
        show ?thesis
          unfolding step using None True False lk p1 w1 Cons.IH [of "acc @ [chartDir]" s1]
          by (simp add: resolved_chart_roots_Cons orphaned_files_Cons flt2)
      qed
    qed
  qed
qed

text \<open>
  C4. Let the merge base and the list of changed files be obtained without error. Then
  \<^verbatim>\<open>ComputeChangedChartDirectories\<close> returns no error, whatever the look-ups of the
  chart roots answer. With look-ups that leave the world as it is, the directories it
  returns are the chart roots of the changed files without duplicates, in first-seen
  order: a file whose second path segment is an excluded chart is skipped, and so is a
  file whose directory resolves to no chart root, for which one line "Directory '...' is
  no chart directory. Skipping..." is printed.
\<close>

theorem ComputeChangedChartDirectories_first_seen:
  assumes mb: "computeMergeBase t s = ((mergeBase, None), s1)"
    and diff: "ListChangedFilesInDirs (git t) mergeBase (ChartDirs (config t)) (world s1) = ((files, None), w2)"
  shows "snd (fst (ComputeChangedChartDirectories t s)) = None
       \<and> ((\<forall>dirs d w. snd (LookupChartDir (chartUtils t) dirs d w) = w) \<longrightarrow>
            fst (fst (ComputeChangedChartDirectories t s)) = first_seen (resolved_chart_roots t w2 files)
          \<and> printed (trace (snd (ComputeChangedChartDirectories t s)))
              = printed (trace s1) @ map (\<lambda>file. ''Directory '' @ quoted (fst (chart_root_of t w2 file))
                  @ '' is no chart directory. Skipping...'') (orphaned_files t w2 files))"
proof -
  define s2 where "s2 = \<lparr>world = w2, trace = trace s1 @
      [GitListChangedFilesInDirs mergeBase (ChartDirs (config t))]\<rparr>"
  have d: "call (GitListChangedFilesInDirs mergeBase (ChartDirs (config t)))
      (ListChangedFilesInDirs (git t) mergeBase (ChartDirs (config t))) s1 = ((files, None), s2)"
    unfolding s2_def using diff by (rule call_eq)
  have eq: "ComputeChangedChartDirectories t s =
      ((fst (changed_loop t files [] s2), None), snd (changed_loop t files [] s2))"
    using mb d by (simp add: ComputeChangedChartDirectories_def Let_def split: prod.splits)
  have w: "world s2 = w2" and p: "printed (trace s2) = printed (trace s1)"
    by (simp_all add: s2_def)
  show ?thesis
  proof (intro conjI impI)
    show "snd (fst (ComputeChangedChartDirectories t s)) = None"
      by (simp add: eq)
  next
    assume query: "\<forall>dirs d w. snd (LookupChartDir (chartUtils t) dirs d w) = w"
    note l = changed_loop_first_seen [OF query, of files "[]" s2, unfolded w p]
    show "fst (fst (ComputeChangedChartDirectories t s)) = first_seen (resolved_chart_roots t w2 files)"
      using l by (simp add: eq)
    show "printed (trace (snd (ComputeChangedChartDirectories t s)))
        = printed (trace s1) @ map (\<lambda>file. ''Directory '' @ quoted (fst (chart_root_of t w2 file))
            @ '' is no chart directory. Skipping...'') (orphaned_files t w2 files)"
      using l by (simp add: eq)
  qed
qed

theorem ComputeChangedChartDirectories_first_seen_witness:
  "fst (ComputeChangedChartDirectories double_changed start) = ([''charts/foo'', ''charts/bar''], None)
   \<and> printed (trace (snd (ComputeChangedChartDirectories double_changed start)))
       = [''Directory '' @ quoted [] @ '' is no chart directory. Skipping...'']
   \<and> fst (ComputeChangedChartDirectories double_changed_excluding start) = ([''charts/foo''], None)"
proof -
  define files where "files = [''charts/foo/templates/x.yaml'', ''charts/bar/Chart.yaml'', ''docs/readme.md'',
          ''charts/foo/Chart.yaml'']"
  have mb: "computeMergeBase double_changed start = ((''abc123'', None),
        \<lparr>world = (), trace = [GitValidateRepository, GitMergeBase ''origin/master'' ''HEAD'']\<rparr>)"
      "computeMergeBase double_changed_excluding start = ((''abc123'', None),
        \<lparr>world = (), trace = [GitValidateRepository, GitMergeBase ''origin/master'' ''HEAD'']\<rparr>)"
    by (simp_all add: computeMergeBase_def call_def double_changed_excluding_def double_changed_def
        double_def double_git_def double_config_def start_def)
  have diff: "ListChangedFilesInDirs (git double_changed) m dirs w = ((files, None), ())"
      "ListChangedFilesInDirs (git double_changed_excluding) m dirs w = ((files, None), ())" for m dirs w
    by (simp_all add: double_changed_excluding_def double_changed_def double_def double_git_def files_def)
  have query: "\<forall>dirs d w. snd (LookupChartDir (chartUtils double_changed) dirs d w) = w"
      "\<forall>dirs d w. snd (LookupChartDir (chartUtils double_changed_excluding) dirs d w) = w"
    by (simp_all add: double_changed_excluding_def double_changed_def double_def)
  have dirs: "double_Dir ''charts/foo/templates/x.yaml'' = ''charts/foo/templates''"
     "double_Dir ''charts/bar/Chart.yaml'' = ''charts/bar''"
     "double_Dir ''docs/readme.md'' = ''docs''"
     "double_Dir ''charts/foo/Chart.yaml'' = ''charts/foo''"
    by (simp_all add: double_Dir_def)
  have c: "considered double_changed f = (2 \<le> length (SplitN f (CHR ''/'') 3))"
     "considered double_changed_excluding f
        = (2 \<le> length (SplitN f (CHR ''/'') 3) \<and> SplitN f (CHR ''/'') 3 ! 1 \<noteq> ''bar'')" for f
    by (simp_all add: considered_def double_changed_excluding_def double_changed_def double_def
        double_config_def Let_def)
  have lk: "chart_root_of double_changed () f = (let dir = double_Dir f in
        if dir = ''charts/foo'' \<or> dir = ''charts/foo/templates'' then (''charts/foo'', None)
        else if dir = ''charts/bar'' then (''charts/bar'', None)
        else ([], Some (ErrorNew ''no chart directory'')))"
      "chart_root_of double_changed_excluding () f = chart_root_of double_changed () f" for f
    by (simp_all add: chart_root_of_def double_changed_excluding_def double_changed_def double_def Let_def)
  have r1: "resolved_chart_roots double_changed () files = [''charts/foo'', ''charts/bar'', ''charts/foo'']"
    by (simp add: resolved_chart_roots_def files_def c lk dirs SplitN_3 SplitN_2)
  have o1: "orphaned_files double_changed () files = [''docs/readme.md'']"
    by (simp add: orphaned_files_def files_def c lk dirs SplitN_3 SplitN_2)
  have r2: "resolved_chart_roots double_changed_excluding () files = [''charts/foo'', ''charts/foo'']"
    by (simp add: resolved_chart_roots_def files_def c lk dirs SplitN_3 SplitN_2)
  show ?thesis
    using ComputeChangedChartDirectories_first_seen [OF mb(1) diff(1)]
      ComputeChangedChartDirectories_first_seen [OF mb(2) diff(2)] query
    by (simp add: r1 o1 r2 lk dirs prod_eq_iff)
qed

subsection \<open>Orchestrator\<close>

lemmas double_defs = double_def double_config_def double_helm_def double_git_def double_kubectl_def
  double_linter_def double_Join_def double_two_def start_def

lemma index_split_with:
  "sep \<in> set repo \<Longrightarrow> index (SplitN repo sep 2) 0 = Return (takeWhile (\<lambda>c. c \<noteq> sep) repo)"
  "sep \<in> set repo \<Longrightarrow> index (SplitN repo sep 2) 1 = Return (tl (dropWhile (\<lambda>c. c \<noteq> sep) repo))"
  "sep \<in> set repo \<Longrightarrow> index (SplitN repo sep 2) (Suc 0) = Return (tl (dropWhile (\<lambda>c. c \<noteq> sep) repo))"
  by (simp_all add: index_def SplitN_2)

lemma index_split_without:
  "sep \<notin> set repo \<Longrightarrow> index (SplitN repo sep 2) 0 = Return repo"
  "sep \<notin> set repo \<Longrightarrow> index (SplitN repo sep 2) 1 = Panic (IndexOutOfRange 1 1)"
  "sep \<notin> set repo \<Longrightarrow> index (SplitN repo sep 2) (Suc 0) = Panic (IndexOutOfRange 1 1)"
  by (simp_all add: index_def SplitN_2)

lemma repoArgs_loop_panics:
  "\<exists>repo \<in> set repos. CHR ''='' \<notin> set repo \<Longrightarrow> repoArgs_loop repos m = Panic (IndexOutOfRange 1 1)"
proof (induction repos arbitrary: m)
  case Nil
  then show ?case by simp
next
  case (Cons repo repos)
  show ?case
  proof (cases "CHR ''='' \<in> set repo")
    case True
    then have "\<exists>repo \<in> set repos. CHR ''='' \<notin> set repo" using Cons.prems by auto
    then show ?thesis
      using True Cons.IH by (simp add: index_split_with Let_def)
  next
    case False
    then show ?thesis by (simp add: index_split_without Let_def)
  qed
qed

lemma repoArgs_loop_returns:
  "\<forall>repo \<in> set repos. CHR ''='' \<in> set repo \<Longrightarrow> \<exists>m'. repoArgs_loop repos m = Return m'"
proof (induction repos arbitrary: m)
  case Nil
  then show ?case by simp
next
  case (Cons repo repos)
  then show ?case by (simp add: index_split_with Let_def)
qed

lemma addRepos_loop_panics:
  assumes ok: "\<forall>name url args w. fst (AddRepo (helm t) name url args w) = None"
  shows "\<exists>repo \<in> set repos. CHR ''='' \<notin> set repo \<Longrightarrow>
         fst (addRepos_loop t m repos s) = Panic (IndexOutOfRange 1 1)"
proof (induction repos arbitrary: s)
  case Nil
  then show ?case by simp
next
  case (Cons repo repos)
  show ?case
  proof (cases "CHR ''='' \<in> set repo")
    case True
    then have rest: "\<exists>repo \<in> set repos. CHR ''='' \<notin> set repo" using Cons.prems by auto
    define name where "name = takeWhile (\<lambda>c. c \<noteq> CHR ''='') repo"
    define url where "url = tl (dropWhile (\<lambda>c. c \<noteq> CHR ''='') repo)"
    define args where "args = (case m name of None \<Rightarrow> [] | Some a \<Rightarrow> a)"
    obtain r s1 where c: "call (HelmAddRepo name url args) (AddRepo (helm t) name url args) s = (r, s1)"
      by (metis surj_pair)
    have "r = None" using call_result(1) [OF c] ok by simp
    then have "addRepos_loop t m (repo # repos) s = addRepos_loop t m repos s1"
      using True c unfolding name_def url_def args_def
      by (simp add: index_split_with Let_def)
    then show ?thesis using Cons.IH [OF rest] by simp
  next
    case False
    then show ?thesis by (simp add: index_split_without Let_def)
  qed
qed

lemma world_fold_print [simp]: "world (fold (\<lambda>x. print (f x)) xs s) = world s"
  by (induction xs arbitrary: s) simp_all

lemma world_print_charts [simp]: "world (print_charts t charts s) = world s"
  by (simp add: print_charts_def Let_def)

text \<open>
  C7. If chart selection yields no chart, and no error, \<^verbatim>\<open>processCharts\<close> returns the
  empty result list and no error, in the very state chart selection left behind: Helm
  is not initialised, no repository is registered and the action is not invoked,
  whatever the action is.
\<close>

theorem processCharts_nothing_selected:
  assumes "FindChartsToBeProcessed t s = (([], None), s1)"
  shows "processCharts t action s = (Return ([], None), s1)"
  using assms by (simp add: processCharts_def)

theorem processCharts_nothing_selected_witness:
  "processCharts double (LintChart double) start =
     (Return ([], None),
      \<lparr>world = (), trace = [GitValidateRepository, GitMergeBase ''origin/master'' ''HEAD'',
         GitListChangedFilesInDirs ''abc123'' [''charts'']]\<rparr>)"
proof -
  have "FindChartsToBeProcessed double start =
     (([], None),
      \<lparr>world = (), trace = [GitValidateRepository, GitMergeBase ''origin/master'' ''HEAD'',
         GitListChangedFilesInDirs ''abc123'' [''charts'']]\<rparr>)"
    by (simp add: FindChartsToBeProcessed_def ComputeChangedChartDirectories_def computeMergeBase_def
        call_def double_defs)
  then show ?thesis by (rule processCharts_nothing_selected)
qed

text \<open>
  C9. Let chart selection yield at least one chart and let Helm initialise. If an entry
  of \<^verbatim>\<open>HelmRepoExtraArgs\<close> has no \<^verbatim>\<open>=\<close>, \<^verbatim>\<open>processCharts\<close> panics with "index out
  of range [1] with length 1". If every entry of \<^verbatim>\<open>HelmRepoExtraArgs\<close> has one, an
  entry of \<^verbatim>\<open>ChartRepos\<close> has none and \<^verbatim>\<open>AddRepo\<close> does not fail, it panics in the same
  way. In both cases it does not return an error: it does not return.
\<close>

theorem processCharts_panics:
  assumes sel: "FindChartsToBeProcessed t s = ((charts, None), s1)"
    and nonempty: "charts \<noteq> []"
    and init: "Init (helm t) (world s1) = (None, w2)"
  shows "((\<exists>repo \<in> set (HelmRepoExtraArgs (config t)). CHR ''='' \<notin> set repo) \<longrightarrow>
            fst (processCharts t action s) = Panic (IndexOutOfRange 1 1))
       \<and> ((\<forall>repo \<in> set (HelmRepoExtraArgs (config t)). CHR ''='' \<in> set repo)
          \<and> (\<exists>repo \<in> set (ChartRepos (config t)). CHR ''='' \<notin> set repo)
          \<and> (\<forall>name url args w. fst (AddRepo (helm t) name url args w) = None) \<longrightarrow>
            fst (processCharts t action s) = Panic (IndexOutOfRange 1 1))"
proof -
  obtain s2 where i: "call HelmInit (Init (helm t)) (print_charts t charts s1) = (None, s2)"
    using call_eq [of "Init (helm t)" "print_charts t charts s1" None w2 HelmInit] init by simp
  show ?thesis
  proof (intro conjI impI)
    assume "\<exists>repo \<in> set (HelmRepoExtraArgs (config t)). CHR ''='' \<notin> set repo"
    from repoArgs_loop_panics [OF this]
    show "fst (processCharts t action s) = Panic (IndexOutOfRange 1 1)"
      using sel nonempty i by (simp add: processCharts_def)
  next
    assume h: "(\<forall>repo \<in> set (HelmRepoExtraArgs (config t)). CHR ''='' \<in> set repo)
          \<and> (\<exists>repo \<in> set (ChartRepos (config t)). CHR ''='' \<notin> set repo)
          \<and> (\<forall>name url args w. fst (AddRepo (helm t) name url args w) = None)"
    obtain m where m: "repoArgs_loop (HelmRepoExtraArgs (config t)) Map.empty = Return m"
      using repoArgs_loop_returns h by blast
    have "fst (addRepos_loop t m (ChartRepos (config t)) s2) = Panic (IndexOutOfRange 1 1)"
      using addRepos_loop_panics h by blast
    then show "fst (processCharts t action s) = Panic (IndexOutOfRange 1 1)"
      using sel nonempty i m
      by (cases "addRepos_loop t m (ChartRepos (config t)) s2") (simp add: processCharts_def)
  qed
qed

theorem processCharts_panics_witness:
  "fst (processCharts double_bad_extra_args (LintChart double_bad_extra_args) start)
     = Panic (IndexOutOfRange 1 1)
   \<and> fst (processCharts double_bad_repo (InstallChart double_bad_repo) start)
     = Panic (IndexOutOfRange 1 1)"
proof -
  have sel: "FindChartsToBeProcessed double_bad_extra_args start = (([''charts/foo''], None), start)"
      "FindChartsToBeProcessed double_bad_repo start = (([''charts/foo''], None), start)"
    by (simp_all add: FindChartsToBeProcessed_def double_bad_extra_args_def double_bad_repo_def double_defs)
  have init: "Init (helm double_bad_extra_args) (world start) = (None, ())"
      "Init (helm double_bad_repo) (world start) = (None, ())"
    by (simp_all add: double_bad_extra_args_def double_bad_repo_def double_defs)
  have bad1: "\<exists>repo \<in> set (HelmRepoExtraArgs (config double_bad_extra_args)). CHR ''='' \<notin> set repo"
    by (simp add: double_bad_extra_args_def double_defs)
  have bad2: "(\<forall>repo \<in> set (HelmRepoExtraArgs (config double_bad_repo)). CHR ''='' \<in> set repo)
      \<and> (\<exists>repo \<in> set (ChartRepos (config double_bad_repo)). CHR ''='' \<notin> set repo)
      \<and> (\<forall>name url args w. fst (AddRepo (helm double_bad_repo) name url args w) = None)"
    by (simp add: double_bad_repo_def double_defs)
  show ?thesis
    using processCharts_panics [OF sel(1) _ init(1), of "LintChart double_bad_extra_args"]
      processCharts_panics [OF sel(2) _ init(2), of "InstallChart double_bad_repo"] bad1 bad2
    by simp
qed

lemma buildPrevious_loop_calls:
  "calls (trace (buildPrevious_loop t charts s))
     = calls (trace s) @ map (\<lambda>chart. HelmBuildDependencies (computePreviousRevisionPath t chart)) charts"
proof (induction charts arbitrary: s)
  case Nil
  then show ?case by simp
next
  case (Cons chart charts)
  obtain r s1 where c: "call (HelmBuildDependencies (computePreviousRevisionPath t chart))
      (BuildDependencies (helm t) (computePreviousRevisionPath t chart)) s = (r, s1)"
    by (metis surj_pair)
  have t1: "calls (trace s1) = calls (trace s) @ [HelmBuildDependencies (computePreviousRevisionPath t chart)]"
    using call_result(3) [OF c] by simp
  show ?case
    using c t1 by (cases r) (simp_all add: Cons.IH)
qed

text \<open>
  C10. Let \<^verbatim>\<open>processCharts\<close> have selected its charts, initialised Helm and registered
  the repositories, with upgrade testing configured and the merge base found. Then it
  returns what the loop over the charts returns, run after the preparation of the
  previous revision, whatever \<^verbatim>\<open>AddWorkingTree\<close> returned (\<open>werr\<close>, which is
  discarded). The preparation calls \<^verbatim>\<open>BuildDependencies\<close> for the previous revision
  of every chart, in order, whether or not earlier ones failed, and a failure of one of
  them only prints the error before the preparation goes on with the remaining charts.
\<close>

theorem previous_revision_failures_tolerated:
  assumes sel: "FindChartsToBeProcessed t s = ((charts, None), s1)"
    and nonempty: "charts \<noteq> []"
    and init: "call HelmInit (Init (helm t)) (print_charts t charts s1) = (None, s2)"
    and args: "repoArgs_loop (HelmRepoExtraArgs (config t)) Map.empty = Return repoArgs"
    and repos: "addRepos_loop t repoArgs (ChartRepos (config t)) s2 = (Return None, s3)"
    and up: "Upgrade_cfg (config t)"
    and mb: "computeMergeBase t s3 = ((mergeBase, None), s4)"
    and wt: "call (GitAddWorkingTree ctPreviousRevisionTree mergeBase)
               (AddWorkingTree (git t) ctPreviousRevisionTree mergeBase) s4 = (werr, s5)"
  shows "processCharts t action s =
           (case charts_loop t action charts [] True (buildPrevious_loop t charts s5) of
              (r, s6) \<Rightarrow> (Return r, snd (call (GitRemoveWorkingTree ctPreviousRevisionTree)
                                    (RemoveWorkingTree (git t) ctPreviousRevisionTree) s6)))
       \<and> calls (trace (buildPrevious_loop t charts s5))
           = calls (trace s5) @ map (\<lambda>chart. HelmBuildDependencies (computePreviousRevisionPath t chart)) charts
       \<and> (call (HelmBuildDependencies (computePreviousRevisionPath t chart))
             (BuildDependencies (helm t) (computePreviousRevisionPath t chart)) s' = (Some err, s'') \<longrightarrow>
           buildPrevious_loop t (chart # rest) s' = buildPrevious_loop t rest
             (println (Error_msg (Wrap err (''Error building dependencies for previous revision of chart ''
                @ quoted chart @ ''\<newline>''))) s''))"
proof -
  have p: "process_selected t action charts s3 =
           (case charts_loop t action charts [] True (buildPrevious_loop t charts s5) of
              (r, s6) \<Rightarrow> (r, snd (call (GitRemoveWorkingTree ctPreviousRevisionTree)
                                    (RemoveWorkingTree (git t) ctPreviousRevisionTree) s6)))"
    using up mb wt by (simp add: process_selected_def)
  have "processCharts t action s = (case process_selected t action charts s3 of (r, s4) \<Rightarrow> (Return r, s4))"
    using sel nonempty init args repos by (simp add: processCharts_def)
  then have "processCharts t action s =
           (case charts_loop t action charts [] True (buildPrevious_loop t charts s5) of
              (r, s6) \<Rightarrow> (Return r, snd (call (GitRemoveWorkingTree ctPreviousRevisionTree)
                                    (RemoveWorkingTree (git t) ctPreviousRevisionTree) s6)))"
    unfolding p by (simp split: prod.splits)
  then show ?thesis
    by (simp add: buildPrevious_loop_calls)
qed

theorem previous_revision_failures_tolerated_witness:
  "fst (processCharts double_failing_preparation double_action start)
     = Return ([\<lparr>Chart = ''charts/foo'', Error = None\<rparr>,
         \<lparr>Chart = ''charts/bar'', Error = Some (ErrorNew ''lint failed'')\<rparr>],
        Some (ErrorNew ''Error processing charts''))
   \<and> calls (trace (snd (processCharts double_failing_preparation double_action start)))
     = [HelmInit, GitValidateRepository, GitMergeBase ''origin/master'' ''HEAD'',
        GitAddWorkingTree ''ct_previous_revision'' ''abc123'',
        HelmBuildDependencies ''ct_previous_revision/charts/foo'',
        HelmBuildDependencies ''ct_previous_revision/charts/bar'',
        HelmBuildDependencies ''charts/foo'', HelmBuildDependencies ''charts/bar'',
        GitRemoveWorkingTree ''ct_previous_revision'']"
proof -
  define s2 :: "unit st" where
    "s2 = \<lparr>world = (), trace = trace (print_charts double_failing_preparation
        [''charts/foo'', ''charts/bar''] start) @ [HelmInit]\<rparr>"
  define s4 :: "unit st" where
    "s4 = \<lparr>world = (), trace = trace s2 @ [GitValidateRepository, GitMergeBase ''origin/master'' ''HEAD'']\<rparr>"
  define s5 :: "unit st" where
    "s5 = \<lparr>world = (), trace = trace s4 @ [GitAddWorkingTree ''ct_previous_revision'' ''abc123'']\<rparr>"
  have sel: "FindChartsToBeProcessed double_failing_preparation start
      = (([''charts/foo'', ''charts/bar''], None), start)"
    by (simp add: FindChartsToBeProcessed_def double_failing_preparation_def double_defs)
  have init: "call HelmInit (Init (helm double_failing_preparation))
      (print_charts double_failing_preparation [''charts/foo'', ''charts/bar''] start) = (None, s2)"
    unfolding s2_def by (rule call_eq) (simp add: double_failing_preparation_def double_defs)
  have args: "repoArgs_loop (HelmRepoExtraArgs (config double_failing_preparation)) Map.empty = Return Map.empty"
    by (simp add: double_failing_preparation_def double_defs)
  have repos: "addRepos_loop double_failing_preparation Map.empty
      (ChartRepos (config double_failing_preparation)) s2 = (Return None, s2)"
    by (simp add: double_failing_preparation_def double_defs)
  have up: "Upgrade_cfg (config double_failing_preparation)"
    by (simp add: double_failing_preparation_def)
  have mb: "computeMergeBase double_failing_preparation s2 = ((''abc123'', None), s4)"
    by (simp add: computeMergeBase_def call_def double_failing_preparation_def double_defs s4_def)
  have wt: "call (GitAddWorkingTree ctPreviousRevisionTree ''abc123'')
      (AddWorkingTree (git double_failing_preparation) ctPreviousRevisionTree ''abc123'') s4
      = (Some (ErrorNew ''worktree exists''), s5)"
    by (simp add: call_def double_failing_preparation_def double_defs s5_def ctPreviousRevisionTree_def)
  have prev: "computePreviousRevisionPath double_failing_preparation c = ''ct_previous_revision/'' @ c" for c
    by (simp add: computePreviousRevisionPath_def double_failing_preparation_def double_defs
        ctPreviousRevisionTree_def)
  have cl: "charts_loop double_failing_preparation double_action [''charts/foo'', ''charts/bar''] [] True s
      = (([\<lparr>Chart = ''charts/foo'', Error = None\<rparr>,
           \<lparr>Chart = ''charts/bar'', Error = Some (ErrorNew ''lint failed'')\<rparr>],
          Some (ErrorNew ''Error processing charts'')),
         \<lparr>world = (), trace = trace s @
            [HelmBuildDependencies ''charts/foo'', HelmBuildDependencies ''charts/bar'']\<rparr>)" for s
    by (simp add: call_def FindValuesFilesForCI_def double_action_def double_failing_preparation_def
        double_defs)
  have pc: "calls (trace (print_charts t charts s)) = calls (trace s)" for t charts and s :: "unit st"
  proof -
    have "calls (trace (fold (\<lambda>chart. print (f chart)) cs s0)) = calls (trace s0)"
      for f :: "string \<Rightarrow> string" and cs and s0 :: "unit st"
      by (induction cs arbitrary: s0) simp_all
    then show ?thesis
      by (simp add: print_charts_def Let_def PrintDelimiterLine_def)
  qed
  define s6 where "s6 = buildPrevious_loop double_failing_preparation [''charts/foo'', ''charts/bar''] s5"
  note th = previous_revision_failures_tolerated [OF sel _ init args repos up mb wt, of double_action,
      folded s6_def]
  have e1: "processCharts double_failing_preparation double_action start
      = (case charts_loop double_failing_preparation double_action [''charts/foo'', ''charts/bar''] [] True s6 of
           (r, s) \<Rightarrow> (Return r, snd (call (GitRemoveWorkingTree ctPreviousRevisionTree)
               (RemoveWorkingTree (git double_failing_preparation) ctPreviousRevisionTree) s)))"
    using th by simp
  have e2: "calls (trace s6) = calls (trace s5) @
      map (\<lambda>chart. HelmBuildDependencies (computePreviousRevisionPath double_failing_preparation chart))
        [''charts/foo'', ''charts/bar'']"
    using th by simp
  have r1: "fst (processCharts double_failing_preparation double_action start)
     = Return ([\<lparr>Chart = ''charts/foo'', Error = None\<rparr>,
         \<lparr>Chart = ''charts/bar'', Error = Some (ErrorNew ''lint failed'')\<rparr>],
        Some (ErrorNew ''Error processing charts''))"
    unfolding e1 cl by simp
  have r2: "calls (trace (snd (processCharts double_failing_preparation double_action start)))
     = [HelmInit, GitValidateRepository, GitMergeBase ''origin/master'' ''HEAD'',
        GitAddWorkingTree ''ct_previous_revision'' ''abc123'',
        HelmBuildDependencies ''ct_previous_revision/charts/foo'',
        HelmBuildDependencies ''ct_previous_revision/charts/bar'',
        HelmBuildDependencies ''charts/foo'', HelmBuildDependencies ''charts/bar'',
        GitRemoveWorkingTree ''ct_previous_revision'']"
    unfolding e1 cl by (simp add: e2 prev s5_def s4_def s2_def pc start_def ctPreviousRevisionTree_def)
  show ?thesis using r1 r2 by simp
qed








text \<open>Each of the three actions names its chart in the result.\<close>

lemma LintChart_Chart: "Chart (fst (LintChart t chart valuesFiles s)) = chart"
  by (simp add: LintChart_def split: prod.splits)

lemma UpgradeChart_Chart: "Chart (fst (UpgradeChart t chart s)) = chart"
  by (simp add: UpgradeChart_def Let_def split: prod.splits option.splits)

lemma InstallChart_Chart: "Chart (fst (InstallChart t chart valuesFiles s)) = chart"
proof -
  obtain res s1 where u: "UpgradeChart t chart s = (res, s1)"
    by (metis surj_pair)
  have "Chart res = chart"
    using UpgradeChart_Chart [of t chart s] u by simp
  then show ?thesis
    using u by (simp add: InstallChart_def Let_def split: prod.splits option.splits)
qed

lemma LintAndInstallChart_Chart: "Chart (fst (LintAndInstallChart t chart valuesFiles s)) = chart"
proof -
  obtain res s1 where l: "LintChart t chart valuesFiles s = (res, s1)"
    by (metis surj_pair)
  have "Chart res = chart"
    using LintChart_Chart [of t chart valuesFiles s] l by simp
  then show ?thesis
    using l InstallChart_Chart [of t chart valuesFiles s1] by (simp add: LintAndInstallChart_def)
qed




end
